theory Spec2Isabelle
  imports Main "HOL-Library.Word"
begin

unbundle bit_operations_syntax

section \<open>Data shared by the packages\<close>

text \<open>
  Byte slices are lists of 8-bit words; Go's \<^verbatim>\<open>uint64\<close> and \<^verbatim>\<open>uint32\<close> are words of
  that width. A \<^verbatim>\<open>time.Time\<close> is kept as its Unix second.
\<close>

type_synonym bytes = "8 word list"
type_synonym uint64 = "64 word"
type_synonym uint32 = "32 word"
type_synonym Time = int

text \<open>
  Go error values. The sentinels are separate constructors, since the code compares
  errors by identity (\<^verbatim>\<open>err == btcec.ErrInvalidMAC\<close>). \<open>ErrorString\<close> is a value
  made by \<^verbatim>\<open>errors.New\<close> or \<^verbatim>\<open>fmt.Errorf\<close>, \<open>MessageError\<close> one made by
  \<^verbatim>\<open>wire.NewMessageError(func, description)\<close>, and \<open>Panic\<close> a run-time panic.
\<close>

datatype error =
    ErrInvalidIdentity
  | ErrInvalidSignature
  | ErrInvalidMAC
  | EOF
  | ErrUnexpectedEOF
  | ErrorString string
  | MessageError string string
  | Panic string

datatype PrivateKey = PrivateKey bytes
datatype PublicKey = PublicKey bytes
datatype Signature = Signature bytes

text \<open>
  \<^verbatim>\<open>bmutil.Address\<close> is an interface with the getters \<^verbatim>\<open>Version()\<close>, \<^verbatim>\<open>Stream()\<close> and
  \<^verbatim>\<open>RipeHash()\<close>; its \<^verbatim>\<open>String()\<close> is a collaborator (see \<open>cipher_env\<close>).
\<close>

record Address =
  Version :: uint64
  Stream :: uint64
  RipeHash :: bytes

record PowData =
  NonceTrialsPerByte :: uint64
  ExtraBytes :: uint64

text \<open>
  The verbs \<^verbatim>\<open>%d\<close> and \<^verbatim>\<open>%v\<close> of \<^verbatim>\<open>fmt\<close> print an unsigned integer in decimal.
\<close>

definition digit :: "nat \<Rightarrow> char" where
  "digit d = ''0123456789'' ! d"

fun decimal :: "nat \<Rightarrow> string" where
  "decimal n = (if n < 10 then [digit n] else decimal (n div 10) @ [digit (n mod 10)])"

text \<open>
  Collaborators used by more than one package and absent from the sources are
  parameters of the model: the varint codec of \<^verbatim>\<open>bmutil\<close>, the \<^verbatim>\<open>Error()\<close> text of an
  error value, and the public half of a \<^verbatim>\<open>btcec\<close> private key with its uncompressed
  serialisation. A writer is a \<^verbatim>\<open>bytes.Buffer\<close>, given by the bytes written so far; a
  reader is given by the bytes not yet read. A function that writes returns its error
  (if any) and the buffer as it has left it.
\<close>

record lib_env =
  ReadVarInt :: "bytes \<Rightarrow> error + (uint64 \<times> bytes)"
  WriteVarInt :: "bytes \<Rightarrow> uint64 \<Rightarrow> error option \<times> bytes"
  Error_text :: "error \<Rightarrow> string"
  PubKey :: "PrivateKey \<Rightarrow> PublicKey"
  SerializeUncompressed :: "PublicKey \<Rightarrow> bytes"

text \<open>
  \<^verbatim>\<open>bytes.Buffer.Write\<close> appends and never fails.
\<close>

definition Buffer_Write :: "bytes \<Rightarrow> bytes \<Rightarrow> error option \<times> bytes" where
  "Buffer_Write w p = (None, w @ p)"

text \<open>
  \<^verbatim>\<open>io.ReadFull(r, buf)\<close> on a reader holding the bytes \<open>r\<close>: nothing is read for an
  empty \<open>buf\<close>; an exhausted reader gives \<^verbatim>\<open>io.EOF\<close>; too few bytes give
  \<^verbatim>\<open>io.ErrUnexpectedEOF\<close> after filling the front of \<open>buf\<close>. The result is the error,
  \<open>buf\<close> as left, and the rest of the reader.
\<close>

definition ReadFull :: "bytes \<Rightarrow> bytes \<Rightarrow> error option \<times> bytes \<times> bytes" where
  "ReadFull r buf =
     (if length buf = 0 then (None, buf, r)
      else if r = [] then (Some EOF, buf, r)
      else if length r < length buf then (Some ErrUnexpectedEOF, r @ drop (length r) buf, [])
      else (None, take (length buf) r, drop (length buf) r))"

section \<open>Package cipher: broadcasts\<close>

text \<open>
  Modelled from the spec: the \<^verbatim>\<open>Bitmessage\<close> struct is declared outside the sources.
  Its fields are those the broadcast code reads (\<^verbatim>\<open>SigningKey\<close>, \<^verbatim>\<open>EncryptionKey\<close>,
  \<^verbatim>\<open>Behavior\<close>, \<^verbatim>\<open>Pow\<close>, \<^verbatim>\<open>Destination\<close>) and the opaque body of the data model;
  \<^verbatim>\<open>Destination\<close> is a pointer, \<open>None\<close> when nil.
\<close>

record Bitmessage =
  SigningKey :: bytes
  EncryptionKey :: bytes
  Behavior :: uint32
  Pow :: PowData
  Destination :: "bytes option"
  Body :: bytes

text \<open>
  Modelled from the spec: the object types of package \<^verbatim>\<open>obj\<close> are declared outside the
  sources. \<^verbatim>\<open>obj.NewTaglessBroadcast(nonce, expiration, stream, encrypted)\<close> and
  \<^verbatim>\<open>obj.NewTaggedBroadcast(nonce, expiration, stream, tag, encrypted)\<close> build them;
  \<^verbatim>\<open>obj.Broadcast\<close> is the interface both implement, and \<^verbatim>\<open>Encrypted()\<close> returns the
  ciphertext.
\<close>

datatype TaglessBroadcast = obj_NewTaglessBroadcast uint64 Time uint64 bytes
datatype TaggedBroadcast = obj_NewTaggedBroadcast uint64 Time uint64 (Tag: bytes) bytes

datatype ObjBroadcast = Tagless TaglessBroadcast | Tagged TaggedBroadcast

fun Encrypted :: "ObjBroadcast \<Rightarrow> bytes" where
  "Encrypted (Tagless (obj_NewTaglessBroadcast n e s c)) = c"
| "Encrypted (Tagged (obj_NewTaggedBroadcast n e s t c)) = c"

text \<open>
  \<^verbatim>\<open>wire.NewObjectHeader(nonce, expiration, objectType, version, stream)\<close>.
\<close>

datatype ObjectHeader = NewObjectHeader uint64 Time uint32 uint64 uint64

text \<open>
  \<^verbatim>\<open>identity.Public\<close> and \<^verbatim>\<open>identity.Private\<close>, with the fields of their struct
  literals; \<^verbatim>\<open>pow.Data\<close> is embedded.
\<close>

record Public =
  Public_address :: Address
  Public_Data :: PowData
  Public_VerificationKey :: PublicKey
  Public_EncryptionKey :: PublicKey

record Private =
  Private_address :: Address
  Private_Data :: PowData
  Private_SigningKey :: PrivateKey
  Private_DecryptionKey :: PrivateKey
  Private_Behavior :: uint32

definition Private_Address :: "Private \<Rightarrow> Address" where
  "Private_Address priv = Private_address priv"

text \<open>
  Every call of a hash or elliptic-curve primitive made by the broadcast code is logged,
  in order, so that a statement can say which cryptographic work has been done.
\<close>

datatype event =
    EvTag Address
  | EvDeriveKey Address
  | EvSum256 bytes
  | EvSha1 bytes
  | EvSign bytes
  | EvEncrypt PublicKey bytes
  | EvDecrypt PrivateKey bytes
  | EvParseSignature bytes
  | EvVerify bytes

text \<open>
  The collaborators of the broadcast code: the payload codec of \<^verbatim>\<open>Bitmessage\<close>
  (\<^verbatim>\<open>decodeBroadcast\<close> is always run on a fresh struct and returns it as left), the
  constants and encoders of \<^verbatim>\<open>wire\<close> and \<^verbatim>\<open>obj\<close>, the identity and address functions,
  and the primitives of \<^verbatim>\<open>btcec\<close>, \<^verbatim>\<open>crypto/sha256\<close> and \<^verbatim>\<open>crypto/sha1\<close>.
\<close>

record cipher_env = lib_env +
  encodeBroadcast :: "Bitmessage \<Rightarrow> bytes \<Rightarrow> error option \<times> bytes"
  decodeBroadcast :: "bytes \<Rightarrow> error option \<times> Bitmessage \<times> bytes"
  SignatureMaxLength :: uint64
  ObjectTypeBroadcast :: uint32
  TaglessBroadcastVersion :: uint64
  TaggedBroadcastVersion :: uint64
  header_EncodeForSigning :: "ObjectHeader \<Rightarrow> bytes \<Rightarrow> error option \<times> bytes"
  WriteElement :: "bytes \<Rightarrow> bytes \<Rightarrow> error option \<times> bytes"
  obj_EncodeForSigning :: "ObjBroadcast \<Rightarrow> bytes \<Rightarrow> error option \<times> bytes"
  ToBtcec :: "bytes \<Rightarrow> error + PublicKey"
  NewPublic :: "PublicKey \<Rightarrow> PublicKey \<Rightarrow> uint32 \<Rightarrow> PowData \<Rightarrow> uint64 \<Rightarrow> uint64 \<Rightarrow> error + Public"
  Address_of :: "Public \<Rightarrow> Address"
  Address_String :: "Address \<Rightarrow> string"
  bmutil_Tag :: "Address \<Rightarrow> bytes"
  V4BroadcastDecryptionKey :: "Address \<Rightarrow> PrivateKey"
  V5BroadcastDecryptionKey :: "Address \<Rightarrow> PrivateKey"
  Decrypt :: "PrivateKey \<Rightarrow> bytes \<Rightarrow> error + bytes"
  Encrypt :: "PublicKey \<Rightarrow> bytes \<Rightarrow> error + bytes"
  Sign :: "PrivateKey \<Rightarrow> bytes \<Rightarrow> error + Signature"
  Serialize :: "Signature \<Rightarrow> bytes"
  ParseSignature :: "bytes \<Rightarrow> error + Signature"
  Verify :: "Signature \<Rightarrow> bytes \<Rightarrow> PublicKey \<Rightarrow> bool"
  Sum256 :: "bytes \<Rightarrow> bytes"
  sha1_Sum :: "bytes \<Rightarrow> bytes"

text \<open>
  A \<^verbatim>\<open>Broadcast\<close>: \<open>msg\<close> is an interface value and \<open>data\<close> a pointer, both nil in
  \<^verbatim>\<open>Broadcast{}\<close>.
\<close>

record Broadcast =
  msg :: "ObjBroadcast option"
  data :: "Bitmessage option"
  signature :: bytes

definition Broadcast_zero :: Broadcast where
  "Broadcast_zero = \<lparr>msg = None, data = None, signature = []\<rparr>"

definition nil_dereference :: error where
  "nil_dereference = Panic ''runtime error: invalid memory address or nil pointer dereference''"

text \<open>
  \<^verbatim>\<open>data.encodeBroadcast(w)\<close> through the pointer \<open>data\<close>.
\<close>

definition data_encodeBroadcast ::
  "'a cipher_env_scheme \<Rightarrow> Bitmessage option \<Rightarrow> bytes \<Rightarrow> error option \<times> bytes" where
  "data_encodeBroadcast env d w =
     (case d of None \<Rightarrow> (Some nil_dereference, w) | Some m \<Rightarrow> encodeBroadcast env m w)"

definition encodeForEncryption ::
  "'a cipher_env_scheme \<Rightarrow> Broadcast \<Rightarrow> bytes \<Rightarrow> error option \<times> bytes" where
  "encodeForEncryption env broadcast w =
     (case data_encodeBroadcast env (data broadcast) w of
        (Some err, w1) \<Rightarrow> (Some err, w1)
      | (None, w1) \<Rightarrow>
          (let sigLength = (of_nat (length (signature broadcast)) :: uint64) in
           case WriteVarInt env w1 sigLength of
             (Some err, w2) \<Rightarrow> (Some err, w2)
           | (None, w2) \<Rightarrow>
               (case Buffer_Write w2 (signature broadcast) of
                  (Some err, w3) \<Rightarrow> (Some err, w3)
                | (None, w3) \<Rightarrow> (None, w3))))"

definition signature_too_long :: "uint64 \<Rightarrow> uint64 \<Rightarrow> error" where
  "signature_too_long sigLength maxLength =
     MessageError ''DecodeFromDecrypted''
       (''signature length exceeds max length - indicates '' @ decimal (unat sigLength)
        @ '', but max length is '' @ decimal (unat maxLength))"

text \<open>
  \<^verbatim>\<open>decodeFromDecrypted\<close> returns its error and the receiver as it has left it.
\<close>

definition decodeFromDecrypted ::
  "'a cipher_env_scheme \<Rightarrow> Broadcast \<Rightarrow> bytes \<Rightarrow> error option \<times> Broadcast" where
  "decodeFromDecrypted env broadcast r =
     (case decodeBroadcast env r of
        (Some err, d, r1) \<Rightarrow> (Some err, broadcast\<lparr>data := Some d\<rparr>)
      | (None, d, r1) \<Rightarrow>
          (case ReadVarInt env r1 of
             Inl err \<Rightarrow> (Some err, broadcast\<lparr>data := Some d\<rparr>)
           | Inr (sigLength, r2) \<Rightarrow>
               if sigLength > SignatureMaxLength env
               then (Some (signature_too_long sigLength (SignatureMaxLength env)),
                     broadcast\<lparr>data := Some d\<rparr>)
               else (case ReadFull r2 (replicate (unat sigLength) 0) of
                       (err, sig, r3) \<Rightarrow> (err, broadcast\<lparr>data := Some d, signature := sig\<rparr>))))"

section \<open>Signing, encrypting and creating a broadcast\<close>

text \<open>
  The two implementations of the interface \<^verbatim>\<open>incompleteBroadcast\<close>, with their methods
  \<^verbatim>\<open>Encode\<close> and \<^verbatim>\<open>Encrypt\<close>.
\<close>

datatype incompleteBroadcast =
    incompleteTaglessBroadcast Time uint64
  | incompleteTaggedBroadcast Time uint64 bytes

fun incomplete_Encode ::
  "'a cipher_env_scheme \<Rightarrow> incompleteBroadcast \<Rightarrow> bytes \<Rightarrow> error option \<times> bytes" where
  "incomplete_Encode env (incompleteTaglessBroadcast expiration streamNumber) w =
     (case header_EncodeForSigning env
             (NewObjectHeader 0 expiration (ObjectTypeBroadcast env)
                (TaglessBroadcastVersion env) streamNumber) w of
        (Some err, w1) \<Rightarrow> (Some err, w1)
      | (None, w1) \<Rightarrow> (None, w1))"
| "incomplete_Encode env (incompleteTaggedBroadcast expiration streamNumber tag) w =
     (case header_EncodeForSigning env
             (NewObjectHeader 0 expiration (ObjectTypeBroadcast env)
                (TaggedBroadcastVersion env) streamNumber) w of
        (Some err, w1) \<Rightarrow> (Some err, w1)
      | (None, w1) \<Rightarrow>
          (case WriteElement env w1 tag of
             (Some err, w2) \<Rightarrow> (Some err, w2)
           | (None, w2) \<Rightarrow> (None, w2)))"

fun incomplete_Encrypt ::
  "'a cipher_env_scheme \<Rightarrow> incompleteBroadcast \<Rightarrow> Address \<Rightarrow> bytes
     \<Rightarrow> event list \<times> (error + ObjBroadcast)" where
  "incomplete_Encrypt env (incompleteTaglessBroadcast expiration streamNumber) address plain =
     (let key = PubKey env (V4BroadcastDecryptionKey env address) in
      case Encrypt env key plain of
        Inl err \<Rightarrow> ([EvDeriveKey address, EvEncrypt key plain], Inl err)
      | Inr encrypted \<Rightarrow>
          ([EvDeriveKey address, EvEncrypt key plain],
           Inr (Tagless (obj_NewTaglessBroadcast 0 expiration streamNumber encrypted))))"
| "incomplete_Encrypt env (incompleteTaggedBroadcast expiration streamNumber tag) address plain =
     (let key = PubKey env (V5BroadcastDecryptionKey env address) in
      case Encrypt env key plain of
        Inl err \<Rightarrow> ([EvDeriveKey address, EvEncrypt key plain], Inl err)
      | Inr encrypted \<Rightarrow>
          ([EvDeriveKey address, EvEncrypt key plain],
           Inr (Tagged (obj_NewTaggedBroadcast 0 expiration streamNumber tag encrypted))))"

definition broadcastEncodeForSigning ::
  "'a cipher_env_scheme \<Rightarrow> bytes \<Rightarrow> incompleteBroadcast \<Rightarrow> Bitmessage option
     \<Rightarrow> error option \<times> bytes" where
  "broadcastEncodeForSigning env w i d =
     (case incomplete_Encode env i w of
        (Some err, w1) \<Rightarrow> (Some err, w1)
      | (None, w1) \<Rightarrow>
          (case data_encodeBroadcast env d w1 of
             (Some err, w2) \<Rightarrow> (Some err, w2)
           | (None, w2) \<Rightarrow> (None, w2)))"

definition encodeForSigning ::
  "'a cipher_env_scheme \<Rightarrow> Broadcast \<Rightarrow> bytes \<Rightarrow> error option \<times> bytes" where
  "encodeForSigning env broadcast w =
     (case msg broadcast of
        None \<Rightarrow> (Some (Panic ''msg is nil''), w)
      | Some m \<Rightarrow>
          (case obj_EncodeForSigning env m w of
             (Some err, w1) \<Rightarrow> (Some err, w1)
           | (None, w1) \<Rightarrow>
               (case data_encodeBroadcast env (data broadcast) w1 of
                  (Some err, w2) \<Rightarrow> (Some err, w2)
                | (None, w2) \<Rightarrow> (None, w2))))"

text \<open>
  \<^verbatim>\<open>signAndEncrypt\<close> returns the calls of primitives it has made, its error, and the
  receiver as it has left it. The buffer \<open>b\<close> starts empty and is reset after hashing.
\<close>

definition signAndEncrypt ::
  "'a cipher_env_scheme \<Rightarrow> Broadcast \<Rightarrow> incompleteBroadcast \<Rightarrow> Address \<Rightarrow> Private
     \<Rightarrow> event list \<times> error option \<times> Broadcast" where
  "signAndEncrypt env broadcast i address private =
     (case broadcastEncodeForSigning env [] i (data broadcast) of
        (Some err, b) \<Rightarrow> ([], Some err, broadcast)
      | (None, b) \<Rightarrow>
          (let hash = Sum256 env b in
           case Sign env (Private_SigningKey private) hash of
             Inl err \<Rightarrow>
               ([EvSum256 b, EvSign hash],
                Some (ErrorString (''signing failed: '' @ Error_text env err)), broadcast)
           | Inr sig \<Rightarrow>
               (let broadcast1 = broadcast\<lparr>signature := Serialize env sig\<rparr> in
                case encodeForEncryption env broadcast1 [] of
                  (Some err, b1) \<Rightarrow> ([EvSum256 b, EvSign hash], Some err, broadcast1)
                | (None, b1) \<Rightarrow>
                    (case incomplete_Encrypt env i address b1 of
                       (t, Inl err) \<Rightarrow>
                         ([EvSum256 b, EvSign hash] @ t,
                          Some (ErrorString (''encryption failed: '' @ Error_text env err)),
                          broadcast1\<lparr>msg := None\<rparr>)
                     | (t, Inr m) \<Rightarrow>
                         ([EvSum256 b, EvSign hash] @ t, None, broadcast1\<lparr>msg := Some m\<rparr>)))))"

text \<open>
  The two creation entry points return the calls of primitives made and either an error
  (with a nil \<^verbatim>\<open>*Broadcast\<close>) or the broadcast. The pointers \<open>data\<close> and \<open>private\<close> are
  taken to be non-nil.
\<close>

definition CreateTaglessBroadcast ::
  "'a cipher_env_scheme \<Rightarrow> Time \<Rightarrow> Bitmessage \<Rightarrow> Private \<Rightarrow> event list \<times> (error + Broadcast)" where
  "CreateTaglessBroadcast env expiration d private =
     (let address = Private_Address private in
      if Destination d \<noteq> None
      then ([], Inl (ErrorString ''Broadcasts do not have a destination.''))
      else
        (let broadcast = \<lparr>msg = None, data = Some d, signature = []\<rparr> in
         case signAndEncrypt env broadcast
                (incompleteTaglessBroadcast expiration (Stream address)) address private of
           (t, Some err, broadcast1) \<Rightarrow> (t, Inl err)
         | (t, None, broadcast1) \<Rightarrow> (t, Inr broadcast1)))"

definition CreateTaggedBroadcast ::
  "'a cipher_env_scheme \<Rightarrow> Time \<Rightarrow> Bitmessage \<Rightarrow> bytes \<Rightarrow> Private
     \<Rightarrow> event list \<times> (error + Broadcast)" where
  "CreateTaggedBroadcast env expires d tag private =
     (let address = Private_Address private in
      if Destination d \<noteq> None
      then ([], Inl (ErrorString ''Broadcasts do not have a destination.''))
      else
        (let broadcast = \<lparr>msg = None, data = Some d, signature = []\<rparr> in
         case signAndEncrypt env broadcast
                (incompleteTaggedBroadcast expires (Stream address) tag) address private of
           (t, Some err, broadcast1) \<Rightarrow> (t, Inl err)
         | (t, None, broadcast1) \<Rightarrow> (t, Inr broadcast1)))"

section \<open>Verifying and opening a broadcast\<close>

definition forwarding_error :: "string \<Rightarrow> string \<Rightarrow> error" where
  "forwarding_error dencAddr genAddr =
     ErrorString (''Address used for decryption ('' @ dencAddr @ '') doesn't match ''
       @ ''that generated from public key ('' @ genAddr @ ''). Possible surreptitious ''
       @ ''forwarding attack.'')"

text \<open>
  The last part of \<^verbatim>\<open>verify\<close>: parse the stored signature and check it against the
  SHA-256 hash, then against the SHA-1 hash.
\<close>

definition verify_signature ::
  "'a cipher_env_scheme \<Rightarrow> bytes \<Rightarrow> bytes \<Rightarrow> bytes \<Rightarrow> PublicKey \<Rightarrow> event list \<times> error option" where
  "verify_signature env sigBytes hash sha1hash signKey =
     (case ParseSignature env sigBytes of
        Inl err \<Rightarrow> ([EvParseSignature sigBytes], Some ErrInvalidSignature)
      | Inr sig \<Rightarrow>
          if \<not> Verify env sig hash signKey
          then (if \<not> Verify env sig sha1hash signKey
                then ([EvParseSignature sigBytes, EvVerify hash, EvVerify sha1hash],
                      Some ErrInvalidSignature)
                else ([EvParseSignature sigBytes, EvVerify hash, EvVerify sha1hash], None))
          else ([EvParseSignature sigBytes, EvVerify hash], None))"

definition verify ::
  "'a cipher_env_scheme \<Rightarrow> Broadcast \<Rightarrow> Address \<Rightarrow> event list \<times> error option" where
  "verify env broadcast address =
     (case msg broadcast of
        None \<Rightarrow> ([], Some (Panic ''msg is nil''))
      | Some m \<Rightarrow>
     (case data broadcast of
        None \<Rightarrow> ([], Some nil_dereference)
      | Some d \<Rightarrow>
     (case ToBtcec env (SigningKey d) of
        Inl err \<Rightarrow> ([], Some err)
      | Inr signKey \<Rightarrow>
     (case ToBtcec env (EncryptionKey d) of
        Inl err \<Rightarrow> ([], Some err)
      | Inr encKey \<Rightarrow>
     (case NewPublic env signKey encKey (Behavior d) (Pow d) (Version address) (Stream address) of
        Inl err \<Rightarrow> ([], Some err)
      | Inr ident \<Rightarrow>
          (let addr = Address_of env ident;
               genAddr = Address_String env addr;
               dencAddr = Address_String env address in
           if dencAddr \<noteq> genAddr then ([], Some (forwarding_error dencAddr genAddr))
           else
             (case encodeForSigning env broadcast [] of
                (Some err, b) \<Rightarrow> ([], Some err)
              | (None, b) \<Rightarrow>
                  (let hash = Sum256 env b; sha1hash = sha1_Sum env b in
                   case verify_signature env (signature broadcast) hash sha1hash signKey of
                     (t, r) \<Rightarrow> ([EvSum256 b, EvSha1 b] @ t, r)))))))))"

definition newBroadcast ::
  "'a cipher_env_scheme \<Rightarrow> ObjBroadcast \<Rightarrow> PrivateKey \<Rightarrow> Address
     \<Rightarrow> event list \<times> (error + Broadcast)" where
  "newBroadcast env m key address =
     (let encrypted = Encrypted m in
      case Decrypt env key encrypted of
        Inl err \<Rightarrow>
          if err = ErrInvalidMAC then ([EvDecrypt key encrypted], Inl ErrInvalidIdentity)
          else ([EvDecrypt key encrypted], Inl err)
      | Inr dec \<Rightarrow>
          (case Buffer_Write [] dec of
             (_, b) \<Rightarrow>
               (case decodeFromDecrypted env Broadcast_zero b of
                  (Some err, broadcast) \<Rightarrow> ([EvDecrypt key encrypted], Inl err)
                | (None, broadcast) \<Rightarrow>
                    (let broadcast1 = broadcast\<lparr>msg := Some m\<rparr> in
                     case verify env broadcast1 address of
                       (t, Some err) \<Rightarrow> (EvDecrypt key encrypted # t, Inl err)
                     | (t, None) \<Rightarrow> (EvDecrypt key encrypted # t, Inr broadcast1)))))"

definition NewTaglessBroadcast ::
  "'a cipher_env_scheme \<Rightarrow> TaglessBroadcast \<Rightarrow> Address \<Rightarrow> event list \<times> (error + Broadcast)" where
  "NewTaglessBroadcast env m address =
     (case newBroadcast env (Tagless m) (V4BroadcastDecryptionKey env address) address of
        (t, Inl err) \<Rightarrow> (EvDeriveKey address # t, Inl err)
      | (t, Inr broadcast) \<Rightarrow> (EvDeriveKey address # t, Inr broadcast))"

text \<open>
  \<^verbatim>\<open>subtle.ConstantTimeByteEq\<close> and \<^verbatim>\<open>subtle.ConstantTimeCompare\<close> of the Go library.
\<close>

definition ConstantTimeByteEq :: "8 word \<Rightarrow> 8 word \<Rightarrow> int" where
  "ConstantTimeByteEq x y = uint (drop_bit 31 ((ucast (x XOR y) :: 32 word) - 1))"

definition ConstantTimeCompare :: "bytes \<Rightarrow> bytes \<Rightarrow> int" where
  "ConstantTimeCompare x y =
     (if length x \<noteq> length y then 0
      else ConstantTimeByteEq (fold (\<lambda>(a, b) v. v OR (a XOR b)) (zip x y) 0) 0)"

definition NewTaggedBroadcast ::
  "'a cipher_env_scheme \<Rightarrow> TaggedBroadcast \<Rightarrow> Address \<Rightarrow> event list \<times> (error + Broadcast)" where
  "NewTaggedBroadcast env m address =
     (if ConstantTimeCompare (Tag m) (bmutil_Tag env address) \<noteq> 1
      then ([EvTag address], Inl ErrInvalidIdentity)
      else
        (case newBroadcast env (Tagged m) (V5BroadcastDecryptionKey env address) address of
           (t, Inl err) \<Rightarrow> ([EvTag address, EvDeriveKey address] @ t, Inl err)
         | (t, Inr broadcast) \<Rightarrow> ([EvTag address, EvDeriveKey address] @ t, Inr broadcast)))"

section \<open>Package wire: the inv message\<close>

datatype InvVect = InvVect bytes

record MsgInv =
  InvList :: "InvVect list"

text \<open>
  \<^verbatim>\<open>MaxInvPerMsg\<close> and \<^verbatim>\<open>readInvVect\<close> are declared outside the sources. The log tells
  when the backing array is made and when an inventory vector is read.
\<close>

record wire_env = lib_env +
  MaxInvPerMsg :: nat
  readInvVect :: "bytes \<Rightarrow> error + (InvVect \<times> bytes)"

datatype wire_event = EvMake nat | EvReadInvVect

definition AddInvVect :: "'a wire_env_scheme \<Rightarrow> MsgInv \<Rightarrow> InvVect \<Rightarrow> error option \<times> MsgInv" where
  "AddInvVect env m iv =
     (if length (InvList m) + 1 > MaxInvPerMsg env
      then (Some (MessageError ''MsgInv.AddInvVect''
                    (''too many invvect in message [max '' @ decimal (MaxInvPerMsg env) @ '']'')),
            m)
      else (None, m\<lparr>InvList := InvList m @ [iv]\<rparr>))"

text \<open>
  The loop of \<^verbatim>\<open>Decode\<close>, by the number of rounds left; the error of \<^verbatim>\<open>AddInvVect\<close> is
  dropped, as in the source.
\<close>

fun Decode_loop ::
  "'a wire_env_scheme \<Rightarrow> nat \<Rightarrow> MsgInv \<Rightarrow> bytes \<Rightarrow> wire_event list \<times> error option \<times> MsgInv" where
  "Decode_loop env 0 m r = ([], None, m)"
| "Decode_loop env (Suc n) m r =
     (case readInvVect env r of
        Inl err \<Rightarrow> ([EvReadInvVect], Some err, m)
      | Inr (iv, r1) \<Rightarrow>
          (case AddInvVect env m iv of
             (_, m1) \<Rightarrow>
               (case Decode_loop env n m1 r1 of
                  (t, err, m2) \<Rightarrow> (EvReadInvVect # t, err, m2))))"

definition too_many_invvect :: "uint64 \<Rightarrow> error" where
  "too_many_invvect count =
     MessageError ''MsgInv.Decode'' (''too many invvect in message ['' @ decimal (unat count) @ '']'')"

definition Decode ::
  "'a wire_env_scheme \<Rightarrow> MsgInv \<Rightarrow> bytes \<Rightarrow> wire_event list \<times> error option \<times> MsgInv" where
  "Decode env m r =
     (case ReadVarInt env r of
        Inl err \<Rightarrow> ([], Some err, m)
      | Inr (count, r1) \<Rightarrow>
          if unat count > MaxInvPerMsg env then ([], Some (too_many_invvect count), m)
          else
            (case Decode_loop env (unat count) (m\<lparr>InvList := []\<rparr>) r1 of
               (t, err, m1) \<Rightarrow> (EvMake (unat count) # t, err, m1)))"

section \<open>Package identity: importing keys\<close>

record identity_env = lib_env +
  DecodeAddress :: "string \<Rightarrow> error + Address"
  DecodeWIF :: "string \<Rightarrow> error + PrivateKey"
  createAddress :: "uint64 \<Rightarrow> uint64 \<Rightarrow> bytes \<Rightarrow> error + Address"
  sha512_Sum :: "bytes \<Rightarrow> bytes"
  ripemd160_Sum :: "bytes \<Rightarrow> bytes"

definition hashHelper :: "'a identity_env_scheme \<Rightarrow> bytes \<Rightarrow> bytes \<Rightarrow> bytes" where
  "hashHelper env signingKey decryptionKey =
     ripemd160_Sum env (sha512_Sum env (signingKey @ decryptionKey))"

definition Private_hash :: "'a identity_env_scheme \<Rightarrow> Private \<Rightarrow> bytes" where
  "Private_hash env priv =
     hashHelper env
       (SerializeUncompressed env (PubKey env (Private_SigningKey priv)))
       (SerializeUncompressed env (PubKey env (Private_DecryptionKey priv)))"

definition ImportWIF ::
  "'a identity_env_scheme \<Rightarrow> string \<Rightarrow> string \<Rightarrow> string \<Rightarrow> uint64 \<Rightarrow> uint64 \<Rightarrow> error + Private" where
  "ImportWIF env address signingKeyWif decryptionKeyWif nonceTrials extraBytes =
     (case DecodeAddress env address of
        Inl err \<Rightarrow> Inl err
      | Inr addr \<Rightarrow>
     (case DecodeWIF env signingKeyWif of
        Inl err \<Rightarrow> Inl (ErrorString (''signing key decode failed: '' @ Error_text env err))
      | Inr privSigningKey \<Rightarrow>
     (case DecodeWIF env decryptionKeyWif of
        Inl err \<Rightarrow> Inl (ErrorString (''encryption key decode failed: '' @ Error_text env err))
      | Inr privDecryptionKey \<Rightarrow>
          (let priv = \<lparr>Private_address = addr,
                        Private_Data = \<lparr>NonceTrialsPerByte = nonceTrials, ExtraBytes = extraBytes\<rparr>,
                        Private_SigningKey = privSigningKey,
                        Private_DecryptionKey = privDecryptionKey,
                        Private_Behavior = 0\<rparr> in
           case createAddress env (Version addr) (Stream addr) (Private_hash env priv) of
             Inl err \<Rightarrow> Inl err
           | Inr a \<Rightarrow>
               if RipeHash a \<noteq> RipeHash addr
               then Inl (ErrorString ''address does not correspond to private keys'')
               else Inr (priv\<lparr>Private_address := a\<rparr>)))))"

section \<open>A small instance of the collaborators\<close>

text \<open>
  The statements below hold for all collaborators. To evaluate the model on concrete
  inputs, the collaborators are instantiated with small stand-ins: varints of one or three
  bytes, a payload of one-byte fields with a length-prefixed body, a cipher that prefixes the key,
  a signature that is the key followed by the hash, and hashes that are short digests.
\<close>

definition sample_ReadVarInt :: "bytes \<Rightarrow> error + (uint64 \<times> bytes)" where
  "sample_ReadVarInt r =
     (case r of
        [] \<Rightarrow> Inl EOF
      | b # rest \<Rightarrow>
          if b < 0xfd then Inr (ucast b, rest)
          else if b = 0xfd then
            (case rest of
               hi # lo # rest1 \<Rightarrow> Inr (push_bit 8 (ucast hi) OR ucast lo, rest1)
             | _ \<Rightarrow> Inl ErrUnexpectedEOF)
          else Inl (ErrorString ''long varint''))"

definition sample_WriteVarInt :: "bytes \<Rightarrow> uint64 \<Rightarrow> error option \<times> bytes" where
  "sample_WriteVarInt w n =
     (if n < 0xfd then (None, w @ [ucast n]) else (Some (ErrorString ''long varint''), w))"

fun sample_Error_text :: "error \<Rightarrow> string" where
  "sample_Error_text (ErrorString s) = s"
| "sample_Error_text (MessageError f d) = f @ '': '' @ d"
| "sample_Error_text (Panic s) = s"
| "sample_Error_text EOF = ''EOF''"
| "sample_Error_text ErrUnexpectedEOF = ''unexpected EOF''"
| "sample_Error_text ErrInvalidMAC = ''invalid mac hash''"
| "sample_Error_text ErrInvalidIdentity = ''invalid identity''"
| "sample_Error_text ErrInvalidSignature = ''invalid signature''"

fun sample_PubKey :: "PrivateKey \<Rightarrow> PublicKey" where
  "sample_PubKey (PrivateKey k) = PublicKey k"

fun sample_SerializeUncompressed :: "PublicKey \<Rightarrow> bytes" where
  "sample_SerializeUncompressed (PublicKey k) = 4 # k"

definition sample_encodeBroadcast :: "Bitmessage \<Rightarrow> bytes \<Rightarrow> error option \<times> bytes" where
  "sample_encodeBroadcast d w =
     (None, w @ [hd (SigningKey d), hd (EncryptionKey d), ucast (Behavior d),
                 ucast (NonceTrialsPerByte (Pow d)), ucast (ExtraBytes (Pow d)),
                 of_nat (length (Body d))] @ Body d)"

definition Bitmessage_zero :: Bitmessage where
  "Bitmessage_zero =
     \<lparr>SigningKey = [], EncryptionKey = [], Behavior = 0,
      Pow = \<lparr>NonceTrialsPerByte = 0, ExtraBytes = 0\<rparr>, Destination = None, Body = []\<rparr>"

definition sample_decodeBroadcast :: "bytes \<Rightarrow> error option \<times> Bitmessage \<times> bytes" where
  "sample_decodeBroadcast r =
     (case r of
        sk # ek # bh # nt # xb # n # rest \<Rightarrow>
          if length rest < unat n then (Some ErrUnexpectedEOF, Bitmessage_zero, [])
          else (None,
                \<lparr>SigningKey = [sk], EncryptionKey = [ek], Behavior = ucast bh,
                 Pow = \<lparr>NonceTrialsPerByte = ucast nt, ExtraBytes = ucast xb\<rparr>,
                 Destination = None, Body = take (unat n) rest\<rparr>,
                drop (unat n) rest)
      | _ \<Rightarrow> (Some ErrUnexpectedEOF, Bitmessage_zero, []))"

fun sample_header_EncodeForSigning :: "ObjectHeader \<Rightarrow> bytes \<Rightarrow> error option \<times> bytes" where
  "sample_header_EncodeForSigning (NewObjectHeader n e t v s) w =
     (None, w @ [ucast t, ucast v, ucast s])"

fun sample_obj_EncodeForSigning :: "ObjBroadcast \<Rightarrow> bytes \<Rightarrow> error option \<times> bytes" where
  "sample_obj_EncodeForSigning (Tagless (obj_NewTaglessBroadcast n e s c)) w =
     (None, w @ [3, 4, ucast s])"
| "sample_obj_EncodeForSigning (Tagged (obj_NewTaggedBroadcast n e s t c)) w =
     (None, w @ [3, 5, ucast s] @ t)"

definition sample_ToBtcec :: "bytes \<Rightarrow> error + PublicKey" where
  "sample_ToBtcec k = (if k = [] then Inl (ErrorString ''invalid public key'') else Inr (PublicKey k))"

fun sample_NewPublic ::
  "PublicKey \<Rightarrow> PublicKey \<Rightarrow> uint32 \<Rightarrow> PowData \<Rightarrow> uint64 \<Rightarrow> uint64 \<Rightarrow> error + Public" where
  "sample_NewPublic (PublicKey sk) (PublicKey ek) behavior pw version stream =
     Inr \<lparr>Public_address = \<lparr>Version = version, Stream = stream, RipeHash = sk @ ek\<rparr>,
          Public_Data = pw,
          Public_VerificationKey = PublicKey sk,
          Public_EncryptionKey = PublicKey ek\<rparr>"

definition sample_Address_String :: "Address \<Rightarrow> string" where
  "sample_Address_String a =
     ''BM-'' @ decimal (unat (Version a)) @ ''-'' @ decimal (unat (Stream a))
       @ concat (map (\<lambda>b. CHR ''-'' # decimal (unat b)) (RipeHash a))"

fun sample_Decrypt :: "PrivateKey \<Rightarrow> bytes \<Rightarrow> error + bytes" where
  "sample_Decrypt (PrivateKey k) c =
     (if length c < length k then Inl (ErrorString ''ciphertext too short'')
      else if take (length k) c = k then Inr (drop (length k) c)
      else Inl ErrInvalidMAC)"

fun sample_Encrypt :: "PublicKey \<Rightarrow> bytes \<Rightarrow> error + bytes" where
  "sample_Encrypt (PublicKey k) p = Inr (k @ p)"

fun sample_Sign :: "PrivateKey \<Rightarrow> bytes \<Rightarrow> error + Signature" where
  "sample_Sign (PrivateKey k) h = Inr (Signature (k @ h))"

fun sample_Serialize :: "Signature \<Rightarrow> bytes" where
  "sample_Serialize (Signature s) = s"

definition sample_ParseSignature :: "bytes \<Rightarrow> error + Signature" where
  "sample_ParseSignature s =
     (if s = [] then Inl (ErrorString ''malformed signature: too short'') else Inr (Signature s))"

fun sample_Verify :: "Signature \<Rightarrow> bytes \<Rightarrow> PublicKey \<Rightarrow> bool" where
  "sample_Verify (Signature s) h (PublicKey k) = (s = k @ h)"

definition sample_env :: cipher_env where
  "sample_env =
     \<lparr>ReadVarInt = sample_ReadVarInt,
      WriteVarInt = sample_WriteVarInt,
      Error_text = sample_Error_text,
      PubKey = sample_PubKey,
      SerializeUncompressed = sample_SerializeUncompressed,
      encodeBroadcast = sample_encodeBroadcast,
      decodeBroadcast = sample_decodeBroadcast,
      SignatureMaxLength = 64,
      ObjectTypeBroadcast = 3,
      TaglessBroadcastVersion = 4,
      TaggedBroadcastVersion = 5,
      header_EncodeForSigning = sample_header_EncodeForSigning,
      WriteElement = Buffer_Write,
      obj_EncodeForSigning = sample_obj_EncodeForSigning,
      ToBtcec = sample_ToBtcec,
      NewPublic = sample_NewPublic,
      Address_of = Public_address,
      Address_String = sample_Address_String,
      bmutil_Tag = (\<lambda>a. 9 # RipeHash a),
      V4BroadcastDecryptionKey = (\<lambda>a. PrivateKey (4 # RipeHash a)),
      V5BroadcastDecryptionKey = (\<lambda>a. PrivateKey (5 # RipeHash a)),
      Decrypt = sample_Decrypt,
      Encrypt = sample_Encrypt,
      Sign = sample_Sign,
      Serialize = sample_Serialize,
      ParseSignature = sample_ParseSignature,
      Verify = sample_Verify,
      Sum256 = (\<lambda>b. [of_nat (length b), 0]),
      sha1_Sum = (\<lambda>b. [of_nat (length b), 1])\<rparr>"

definition sample_address :: Address where
  "sample_address = \<lparr>Version = 4, Stream = 1, RipeHash = [7, 8]\<rparr>"

definition sample_other_address :: Address where
  "sample_other_address = \<lparr>Version = 4, Stream = 1, RipeHash = [7, 9]\<rparr>"

definition sample_data :: Bitmessage where
  "sample_data =
     \<lparr>SigningKey = [7], EncryptionKey = [8], Behavior = 1,
      Pow = \<lparr>NonceTrialsPerByte = 2, ExtraBytes = 3\<rparr>, Destination = None, Body = [10, 11]\<rparr>"

definition sample_private :: Private where
  "sample_private =
     \<lparr>Private_address = sample_address,
      Private_Data = \<lparr>NonceTrialsPerByte = 2, ExtraBytes = 3\<rparr>,
      Private_SigningKey = PrivateKey [7], Private_DecryptionKey = PrivateKey [8],
      Private_Behavior = 1\<rparr>"

definition sample_wire_env :: wire_env where
  "sample_wire_env =
     \<lparr>ReadVarInt = sample_ReadVarInt,
      WriteVarInt = sample_WriteVarInt,
      Error_text = sample_Error_text,
      PubKey = sample_PubKey,
      SerializeUncompressed = sample_SerializeUncompressed,
      MaxInvPerMsg = 50000,
      readInvVect = (\<lambda>r. if length r < 32 then Inl ErrUnexpectedEOF
                          else Inr (InvVect (take 32 r), drop 32 r))\<rparr>"

definition sample_DecodeAddress :: "string \<Rightarrow> error + Address" where
  "sample_DecodeAddress s =
     (if s = ''BM-sample'' then Inr \<lparr>Version = 4, Stream = 1, RipeHash = [4, 7, 4, 8]\<rparr>
      else if s = ''BM-other'' then Inr \<lparr>Version = 4, Stream = 1, RipeHash = [4, 7, 4, 9]\<rparr>
      else Inl (ErrorString ''checksum failed''))"

definition sample_DecodeWIF :: "string \<Rightarrow> error + PrivateKey" where
  "sample_DecodeWIF s =
     (if s = ''5sign'' then Inr (PrivateKey [7])
      else if s = ''5decrypt'' then Inr (PrivateKey [8])
      else Inl (ErrorString ''malformed private key''))"

definition sample_identity_env :: identity_env where
  "sample_identity_env =
     \<lparr>ReadVarInt = sample_ReadVarInt,
      WriteVarInt = sample_WriteVarInt,
      Error_text = sample_Error_text,
      PubKey = sample_PubKey,
      SerializeUncompressed = sample_SerializeUncompressed,
      DecodeAddress = sample_DecodeAddress,
      DecodeWIF = sample_DecodeWIF,
      createAddress = (\<lambda>version stream ripe. Inr \<lparr>Version = version, Stream = stream, RipeHash = ripe\<rparr>),
      sha512_Sum = (\<lambda>b. b),
      ripemd160_Sum = (\<lambda>b. take 20 b)\<rparr>"

definition sample_object :: ObjBroadcast where
  "sample_object =
     Tagless (obj_NewTaglessBroadcast 0 0 1 [4, 7, 8, 7, 8, 1, 2, 3, 2, 10, 11, 3, 7, 11, 0])"

definition sample_legacy_broadcast :: Broadcast where
  "sample_legacy_broadcast =
     \<lparr>msg = Some sample_object, data = Some sample_data, signature = [7, 11, 1]\<rparr>"

definition sample_unparsable_broadcast :: Broadcast where
  "sample_unparsable_broadcast =
     \<lparr>msg = Some sample_object, data = Some sample_data, signature = []\<rparr>"

text \<open>
  Round-trip conditions on the collaborating codecs, used as hypotheses of the framing
  lemma: the payload encoder appends the bytes \<open>p\<close> to any buffer and the decoder reads
  \<open>p\<close> back to the same message, leaving what follows; likewise the varint codec for the
  number \<open>n\<close> and its bytes \<open>v\<close>.
\<close>

definition payload_round_trips :: "'a cipher_env_scheme \<Rightarrow> Bitmessage \<Rightarrow> bytes \<Rightarrow> bool" where
  "payload_round_trips env d p \<longleftrightarrow>
     (\<forall>w. encodeBroadcast env d w = (None, w @ p))
     \<and> (\<forall>rest. decodeBroadcast env (p @ rest) = (None, d, rest))"

definition varint_round_trips :: "'a cipher_env_scheme \<Rightarrow> uint64 \<Rightarrow> bytes \<Rightarrow> bool" where
  "varint_round_trips env n v \<longleftrightarrow>
     (\<forall>w. WriteVarInt env w n = (None, w @ v))
     \<and> (\<forall>rest. ReadVarInt env (v @ rest) = Inr (n, rest))"

definition sample_forwarded :: TaglessBroadcast where
  "sample_forwarded =
     obj_NewTaglessBroadcast 0 0 1 [4, 7, 9, 7, 8, 1, 2, 3, 2, 10, 11, 3, 7, 11, 0]"

definition sample_env_sign_fails :: cipher_env where
  "sample_env_sign_fails =
     sample_env\<lparr>Sign := (\<lambda>k h. Inl (ErrorString ''no entropy''))\<rparr>"

definition sample_env_encrypt_fails :: cipher_env where
  "sample_env_encrypt_fails =
     sample_env\<lparr>Encrypt := (\<lambda>k p. Inl (ErrorString ''point not on curve''))\<rparr>"

definition sample_env_encode_fails :: cipher_env where
  "sample_env_encode_fails =
     sample_env\<lparr>encodeBroadcast := (\<lambda>d w. (Some (ErrorString ''unsupported encoding''), w))\<rparr>"

definition sample_fresh :: Broadcast where
  "sample_fresh = \<lparr>msg = None, data = Some sample_data, signature = []\<rparr>"

definition sample_incomplete :: incompleteBroadcast where
  "sample_incomplete = incompleteTaglessBroadcast 0 (Stream (Private_Address sample_private))"

section \<open>Constant-time comparison\<close>

lemma byteeq_diff_aux:
  fixes v :: "8 word"
  assumes "v \<noteq> 0"
  shows "drop_bit 31 ((ucast v :: 32 word) - 1) = 0"
proof -
  let ?w = "ucast v :: 32 word"
  have v256: "unat v < 256" using unsigned_less [of v, where ?'a = nat] by simp
  have "unat ?w = take_bit 32 (unat v)"
    by (simp add: unsigned_ucast_eq)
  also have "\<dots> = unat v"
    using v256 by (simp add: take_bit_nat_eq_self)
  finally have uw: "unat ?w = unat v" .
  have "unat v \<noteq> 0" using assms by (simp add: unat_eq_zero)
  then have wn: "?w \<noteq> 0" using uw by (metis unat_eq_zero)
  have "unat (?w - 1) = unat ?w - 1" using wn by (rule unat_minus_one)
  then have lt: "unat (?w - 1) < 2 ^ 31" using uw v256 by simp
  have "unat (drop_bit 31 (?w - 1)) = drop_bit 31 (unat (?w - 1))"
    by (simp add: unat_drop_bit_eq)
  also have "\<dots> = 0" using lt by (simp add: drop_bit_eq_div)
  finally show ?thesis by (simp add: unat_eq_zero)
qed

lemma ConstantTimeByteEq_iff: "ConstantTimeByteEq x y = (if x = y then 1 else 0)"
proof (cases "x = y")
  case True
  then show ?thesis by (simp add: ConstantTimeByteEq_def drop_bit_eq_div)
next
  case False
  then have "x XOR y \<noteq> 0" by (metis bit.xor_left_self xor.right_neutral)
  then show ?thesis using False by (simp add: ConstantTimeByteEq_def byteeq_diff_aux)
qed

lemma fold_or_zero:
  "length x = length y \<Longrightarrow>
   (fold (\<lambda>(a, b) v. v OR (a XOR b)) (zip x y) (acc :: 8 word) = 0) = (acc = 0 \<and> x = y)"
proof (induction x y arbitrary: acc rule: list_induct2)
  case Nil
  then show ?case by simp
next
  case (Cons a x b y)
  have "(a XOR b = 0) = (a = b)" by (metis bit.xor_left_self xor.right_neutral bit.xor_self)
  then show ?case using Cons.IH by (auto simp: or_eq_0_iff)
qed

lemma ConstantTimeCompare_iff: "(ConstantTimeCompare x y = 1) = (x = y)"
  using fold_or_zero [of x y 0]
  by (auto simp: ConstantTimeCompare_def ConstantTimeByteEq_iff)

section \<open>Decoding a decrypted broadcast\<close>

text \<open>
  Claim C6. Whenever the payload has been decoded and the varint read after it is a
  signature length greater than \<^verbatim>\<open>SignatureMaxLength\<close>, \<open>decodeFromDecrypted\<close> fails with
  the message error of \<^verbatim>\<open>DecodeFromDecrypted\<close>, whatever bytes \<open>r2\<close> follow in the
  stream. The evaluation after it is the case of a declared length of 100 with a maximum
  of 64 and 100 bytes present.
\<close>

theorem decodeFromDecrypted_signature_too_long:
  assumes "decodeBroadcast env r = (None, d, r1)"
    and "ReadVarInt env r1 = Inr (sigLength, r2)"
    and "sigLength > SignatureMaxLength env"
  shows "fst (decodeFromDecrypted env broadcast r)
           = Some (MessageError ''DecodeFromDecrypted''
                (''signature length exceeds max length - indicates '' @ decimal (unat sigLength)
                  @ '', but max length is '' @ decimal (unat (SignatureMaxLength env))))"
  using assms by (simp add: decodeFromDecrypted_def signature_too_long_def)

theorem decodeFromDecrypted_signature_too_long_witness:
  "fst (decodeFromDecrypted sample_env Broadcast_zero ([7, 8, 1, 2, 3, 0, 100] @ replicate 100 0))
     = Some (MessageError ''DecodeFromDecrypted''
               ''signature length exceeds max length - indicates 100, but max length is 64'')"
proof -
  let ?r = "[7, 8, 1, 2, 3, 0, 100] @ replicate 100 (0 :: 8 word)"
  have h1: "decodeBroadcast sample_env ?r
              = (None, sample_data\<lparr>Body := []\<rparr>, 100 # replicate 100 0)"
    by (simp add: sample_env_def sample_decodeBroadcast_def sample_data_def)
  have h2: "ReadVarInt sample_env (100 # replicate 100 0) = Inr (100, replicate 100 0)"
    by (simp add: sample_env_def sample_ReadVarInt_def)
  have h3: "(100 :: uint64) > SignatureMaxLength sample_env"
    by (simp add: sample_env_def)
  show ?thesis
    using decodeFromDecrypted_signature_too_long [OF h1 h2 h3, of Broadcast_zero]
    by (simp add: sample_env_def digit_def)
qed

section \<open>Opening a broadcast\<close>

text \<open>
  Claim C5. When decryption fails in \<open>newBroadcast\<close>, the error returned is
  \<open>ErrInvalidIdentity\<close> if the failure is \<^verbatim>\<open>btcec.ErrInvalidMAC\<close>, and the error of
  the decryption itself otherwise; no broadcast is returned.
\<close>

theorem newBroadcast_decrypt_failure:
  assumes "Decrypt env key (Encrypted m) = Inl err"
  shows "newBroadcast env m key address
           = ([EvDecrypt key (Encrypted m)],
              Inl (if err = ErrInvalidMAC then ErrInvalidIdentity else err))"
  using assms by (simp add: newBroadcast_def)

theorem newBroadcast_decrypt_failure_witness:
  "newBroadcast sample_env (Tagless (obj_NewTaglessBroadcast 0 0 1 [4, 7, 9, 1]))
       (PrivateKey [4, 7, 8]) sample_address
     = ([EvDecrypt (PrivateKey [4, 7, 8]) [4, 7, 9, 1]], Inl ErrInvalidIdentity)
   \<and> newBroadcast sample_env (Tagless (obj_NewTaglessBroadcast 0 0 1 [4, 7]))
       (PrivateKey [4, 7, 8]) sample_address
     = ([EvDecrypt (PrivateKey [4, 7, 8]) [4, 7]], Inl (ErrorString ''ciphertext too short''))"
proof -
  have h1: "Decrypt sample_env (PrivateKey [4, 7, 8])
              (Encrypted (Tagless (obj_NewTaglessBroadcast 0 0 1 [4, 7, 9, 1]))) = Inl ErrInvalidMAC"
    by (simp add: sample_env_def)
  have h2: "Decrypt sample_env (PrivateKey [4, 7, 8])
              (Encrypted (Tagless (obj_NewTaglessBroadcast 0 0 1 [4, 7])))
              = Inl (ErrorString ''ciphertext too short'')"
    by (simp add: sample_env_def)
  show ?thesis
    using newBroadcast_decrypt_failure [OF h1, of sample_address]
      newBroadcast_decrypt_failure [OF h2, of sample_address]
    by simp
qed

text \<open>
  Claim C4. If the tag of a tagged broadcast differs from the tag derived from the
  address, \<open>NewTaggedBroadcast\<close> returns \<open>ErrInvalidIdentity\<close> having only derived the
  tag; a decryption appears in the log exactly when the two tags are equal.
\<close>

theorem NewTaggedBroadcast_tag_mismatch:
  "(Tag m \<noteq> bmutil_Tag env address \<longrightarrow>
      NewTaggedBroadcast env m address = ([EvTag address], Inl ErrInvalidIdentity))
   \<and> ((\<exists>key c. EvDecrypt key c \<in> set (fst (NewTaggedBroadcast env m address)))
        \<longleftrightarrow> Tag m = bmutil_Tag env address)"
  by (auto simp: NewTaggedBroadcast_def ConstantTimeCompare_iff newBroadcast_def Let_def
           split: prod.splits sum.splits option.splits)

theorem NewTaggedBroadcast_tag_mismatch_witness:
  "NewTaggedBroadcast sample_env (obj_NewTaggedBroadcast 0 0 1 [9, 7, 9] [5, 7, 8, 1]) sample_address
     = ([EvTag sample_address], Inl ErrInvalidIdentity)"
proof -
  have h: "Tag (obj_NewTaggedBroadcast 0 0 1 [9, 7, 9] [5, 7, 8, 1])
             \<noteq> bmutil_Tag sample_env sample_address"
    by (simp add: sample_env_def sample_address_def)
  show ?thesis
    using NewTaggedBroadcast_tag_mismatch
            [of "obj_NewTaggedBroadcast 0 0 1 [9, 7, 9] [5, 7, 8, 1]" sample_env sample_address] h
    by simp
qed

section \<open>Creating a broadcast\<close>

text \<open>
  Claim C7. For a message with a non-nil destination, both creation entry points return
  the destination error and no broadcast, and the log of primitive calls is empty: no
  signing, hashing or encryption has been done. For a nil destination the check passes
  and the result is that of \<open>signAndEncrypt\<close> on the fresh broadcast.
\<close>

theorem Create_rejects_destination:
  "(Destination d \<noteq> None \<longrightarrow>
      CreateTaglessBroadcast env expiration d private
        = ([], Inl (ErrorString ''Broadcasts do not have a destination.''))
      \<and> CreateTaggedBroadcast env expiration d tag private
        = ([], Inl (ErrorString ''Broadcasts do not have a destination.'')))
   \<and> (Destination d = None \<longrightarrow>
      CreateTaglessBroadcast env expiration d private
        = (case signAndEncrypt env \<lparr>msg = None, data = Some d, signature = []\<rparr>
                  (incompleteTaglessBroadcast expiration (Stream (Private_Address private)))
                  (Private_Address private) private of
             (t, Some err, b) \<Rightarrow> (t, Inl err)
           | (t, None, b) \<Rightarrow> (t, Inr b))
      \<and> CreateTaggedBroadcast env expiration d tag private
        = (case signAndEncrypt env \<lparr>msg = None, data = Some d, signature = []\<rparr>
                  (incompleteTaggedBroadcast expiration (Stream (Private_Address private)) tag)
                  (Private_Address private) private of
             (t, Some err, b) \<Rightarrow> (t, Inl err)
           | (t, None, b) \<Rightarrow> (t, Inr b)))"
proof (cases "Destination d")
  case None
  then show ?thesis
    by (simp add: CreateTaglessBroadcast_def CreateTaggedBroadcast_def Let_def)
next
  case (Some dest)
  then have "CreateTaglessBroadcast env expiration d private
               = ([], Inl (ErrorString ''Broadcasts do not have a destination.''))"
    and "CreateTaggedBroadcast env expiration d tag private
               = ([], Inl (ErrorString ''Broadcasts do not have a destination.''))"
    by (simp_all add: CreateTaglessBroadcast_def CreateTaggedBroadcast_def Let_def)
  with Some show ?thesis by simp
qed

theorem Create_rejects_destination_witness:
  "CreateTaglessBroadcast sample_env 0 (sample_data\<lparr>Destination := Some [1, 2]\<rparr>) sample_private
     = ([], Inl (ErrorString ''Broadcasts do not have a destination.''))
   \<and> CreateTaggedBroadcast sample_env 0 (sample_data\<lparr>Destination := Some [1, 2]\<rparr>) [9, 7, 8]
        sample_private
     = ([], Inl (ErrorString ''Broadcasts do not have a destination.''))
   \<and> CreateTaglessBroadcast sample_env 0 sample_data sample_private
     = ([EvSum256 [3, 4, 1, 7, 8, 1, 2, 3, 2, 10, 11], EvSign [11, 0],
         EvDeriveKey sample_address,
         EvEncrypt (PublicKey [4, 7, 8]) [7, 8, 1, 2, 3, 2, 10, 11, 3, 7, 11, 0]],
        Inr \<lparr>msg = Some sample_object, data = Some sample_data, signature = [7, 11, 0]\<rparr>)"
proof -
  have s: "signAndEncrypt sample_env \<lparr>msg = None, data = Some sample_data, signature = []\<rparr>
             (incompleteTaglessBroadcast 0 (Stream (Private_Address sample_private)))
             (Private_Address sample_private) sample_private
           = ([EvSum256 [3, 4, 1, 7, 8, 1, 2, 3, 2, 10, 11], EvSign [11, 0],
               EvDeriveKey sample_address,
               EvEncrypt (PublicKey [4, 7, 8]) [7, 8, 1, 2, 3, 2, 10, 11, 3, 7, 11, 0]],
              None,
              \<lparr>msg = Some sample_object, data = Some sample_data, signature = [7, 11, 0]\<rparr>)"
    by (simp add: signAndEncrypt_def broadcastEncodeForSigning_def Let_def
          encodeForEncryption_def data_encodeBroadcast_def sample_env_def
          sample_encodeBroadcast_def sample_WriteVarInt_def Buffer_Write_def
          sample_private_def Private_Address_def sample_data_def sample_object_def
          sample_address_def)
  have d: "Destination (sample_data\<lparr>Destination := Some [1, 2]\<rparr>) \<noteq> None"
    "Destination sample_data = None"
    by (simp_all add: sample_data_def)
  show ?thesis
    using Create_rejects_destination
            [of "sample_data\<lparr>Destination := Some [1, 2]\<rparr>" sample_env 0 sample_private "[9, 7, 8]"]
      Create_rejects_destination [of sample_data sample_env 0 sample_private "[9, 7, 8]"]
      d
    by (simp add: s)
qed

section \<open>Decoding an inv message\<close>

text \<open>
  Claim C9. When the varint count read by \<open>Decode\<close> exceeds \<^verbatim>\<open>MaxInvPerMsg\<close>, the result
  is the message error of \<^verbatim>\<open>MsgInv.Decode\<close>; the log is empty, so no backing array has
  been made and no inventory vector read, and the message is unchanged.
\<close>

theorem Decode_rejects_count:
  assumes "ReadVarInt env r = Inr (count, r1)"
    and "unat count > MaxInvPerMsg env"
  shows "Decode env m r
           = ([], Some (MessageError ''MsgInv.Decode''
                          (''too many invvect in message ['' @ decimal (unat count) @ '']'')), m)"
  using assms by (simp add: Decode_def too_many_invvect_def)

theorem Decode_rejects_count_witness:
  "Decode sample_wire_env \<lparr>InvList = []\<rparr> ([0xfd, 0xc3, 0x51] @ replicate 32 0)
     = ([], Some (MessageError ''MsgInv.Decode'' ''too many invvect in message [50001]''),
        \<lparr>InvList = []\<rparr>)"
proof -
  have h1: "ReadVarInt sample_wire_env ([0xfd, 0xc3, 0x51] @ replicate 32 0)
              = Inr (50001, replicate 32 0)"
    by (simp add: sample_wire_env_def sample_ReadVarInt_def)
  have h2: "unat (50001 :: uint64) > MaxInvPerMsg sample_wire_env"
    by (simp add: sample_wire_env_def)
  show ?thesis
    using Decode_rejects_count [OF h1 h2, of "\<lparr>InvList = []\<rparr>"]
    by (simp add: digit_def)
qed

section \<open>Importing an identity\<close>

text \<open>
  Claim C10. If \<open>ImportWIF\<close> returns an identity, then the address string and both keys
  decoded, the identity holds the address made from the decoded version and stream and
  the hash of its keys, and the ripe hash of that address equals the ripe hash of the
  decoded address. If everything decodes and the two ripe hashes differ, \<open>ImportWIF\<close>
  returns an error and no identity.
\<close>

theorem ImportWIF_checks_ripe:
  "(ImportWIF env address signingKeyWif decryptionKeyWif nonceTrials extraBytes = Inr priv \<longrightarrow>
      (\<exists>addr. DecodeAddress env address = Inr addr
         \<and> DecodeWIF env signingKeyWif = Inr (Private_SigningKey priv)
         \<and> DecodeWIF env decryptionKeyWif = Inr (Private_DecryptionKey priv)
         \<and> createAddress env (Version addr) (Stream addr) (Private_hash env priv)
             = Inr (Private_address priv)
         \<and> RipeHash (Private_address priv) = RipeHash addr))
   \<and> (DecodeAddress env address = Inr addr
        \<and> DecodeWIF env signingKeyWif = Inr sk \<and> DecodeWIF env decryptionKeyWif = Inr dk
        \<and> createAddress env (Version addr) (Stream addr)
             (hashHelper env (SerializeUncompressed env (PubKey env sk))
                             (SerializeUncompressed env (PubKey env dk))) = Inr a
        \<and> RipeHash a \<noteq> RipeHash addr \<longrightarrow>
      ImportWIF env address signingKeyWif decryptionKeyWif nonceTrials extraBytes
        = Inl (ErrorString ''address does not correspond to private keys''))"
proof (intro conjI impI)
  assume ok: "ImportWIF env address signingKeyWif decryptionKeyWif nonceTrials extraBytes = Inr priv"
  then obtain addr where "DecodeAddress env address = Inr addr"
    by (cases "DecodeAddress env address") (simp_all add: ImportWIF_def)
  with ok show "\<exists>addr. DecodeAddress env address = Inr addr
         \<and> DecodeWIF env signingKeyWif = Inr (Private_SigningKey priv)
         \<and> DecodeWIF env decryptionKeyWif = Inr (Private_DecryptionKey priv)
         \<and> createAddress env (Version addr) (Stream addr) (Private_hash env priv)
             = Inr (Private_address priv)
         \<and> RipeHash (Private_address priv) = RipeHash addr"
    by (auto simp: ImportWIF_def Private_hash_def Let_def split: sum.splits if_splits)
next
  assume "DecodeAddress env address = Inr addr
        \<and> DecodeWIF env signingKeyWif = Inr sk \<and> DecodeWIF env decryptionKeyWif = Inr dk
        \<and> createAddress env (Version addr) (Stream addr)
             (hashHelper env (SerializeUncompressed env (PubKey env sk))
                             (SerializeUncompressed env (PubKey env dk))) = Inr a
        \<and> RipeHash a \<noteq> RipeHash addr"
  then show "ImportWIF env address signingKeyWif decryptionKeyWif nonceTrials extraBytes
        = Inl (ErrorString ''address does not correspond to private keys'')"
    by (simp add: ImportWIF_def Private_hash_def Let_def)
qed

theorem ImportWIF_checks_ripe_witness:
  "ImportWIF sample_identity_env ''BM-sample'' ''5sign'' ''5decrypt'' 1000 1000
     = Inr \<lparr>Private_address = \<lparr>Version = 4, Stream = 1, RipeHash = [4, 7, 4, 8]\<rparr>,
            Private_Data = \<lparr>NonceTrialsPerByte = 1000, ExtraBytes = 1000\<rparr>,
            Private_SigningKey = PrivateKey [7], Private_DecryptionKey = PrivateKey [8],
            Private_Behavior = 0\<rparr>
   \<and> DecodeAddress sample_identity_env ''BM-sample''
     = Inr \<lparr>Version = 4, Stream = 1, RipeHash = [4, 7, 4, 8]\<rparr>
   \<and> ImportWIF sample_identity_env ''BM-other'' ''5sign'' ''5decrypt'' 1000 1000
     = Inl (ErrorString ''address does not correspond to private keys'')"
proof -
  let ?a = "\<lparr>Version = 4, Stream = 1, RipeHash = [4, 7, 4, 9]\<rparr>"
  let ?a' = "\<lparr>Version = 4, Stream = 1, RipeHash = [4, 7, 4, 8]\<rparr>"
  have h: "DecodeAddress sample_identity_env ''BM-other'' = Inr ?a
        \<and> DecodeWIF sample_identity_env ''5sign'' = Inr (PrivateKey [7])
        \<and> DecodeWIF sample_identity_env ''5decrypt'' = Inr (PrivateKey [8])
        \<and> createAddress sample_identity_env (Version ?a) (Stream ?a)
             (hashHelper sample_identity_env
                (SerializeUncompressed sample_identity_env (PubKey sample_identity_env (PrivateKey [7])))
                (SerializeUncompressed sample_identity_env (PubKey sample_identity_env (PrivateKey [8]))))
             = Inr ?a'
        \<and> RipeHash ?a' \<noteq> RipeHash ?a"
    by (simp add: sample_identity_env_def sample_DecodeAddress_def sample_DecodeWIF_def
          hashHelper_def)
  have g: "ImportWIF sample_identity_env ''BM-sample'' ''5sign'' ''5decrypt'' 1000 1000
     = Inr \<lparr>Private_address = ?a',
            Private_Data = \<lparr>NonceTrialsPerByte = 1000, ExtraBytes = 1000\<rparr>,
            Private_SigningKey = PrivateKey [7], Private_DecryptionKey = PrivateKey [8],
            Private_Behavior = 0\<rparr>"
    by (simp add: ImportWIF_def sample_identity_env_def sample_DecodeAddress_def
          sample_DecodeWIF_def hashHelper_def Private_hash_def)
  have d: "DecodeAddress sample_identity_env ''BM-sample'' = Inr ?a'"
    by (simp add: sample_identity_env_def sample_DecodeAddress_def)
  have "ImportWIF sample_identity_env ''BM-other'' ''5sign'' ''5decrypt'' 1000 1000
          = Inl (ErrorString ''address does not correspond to private keys'')"
    using ImportWIF_checks_ripe
            [of sample_identity_env "''BM-other''" "''5sign''" "''5decrypt''" 1000 1000
                "undefined" ?a "PrivateKey [7]" "PrivateKey [8]" ?a', THEN conjunct2] h
    by blast
  then show ?thesis using g d by blast
qed

section \<open>Verifying the signature\<close>

text \<open>
  A stored signature that does not parse is rejected with \<open>ErrInvalidSignature\<close> before
  either hash is checked.
\<close>

lemma verify_signature_unparsable:
  "ParseSignature env s = Inl e \<Longrightarrow>
     verify_signature env s h h1 k = ([EvParseSignature s], Some ErrInvalidSignature)"
  by (simp add: verify_signature_def)

text \<open>
  Claim C3, amended. Once the identity check has passed and the signable bytes \<open>b\<close> are
  encoded, \<open>verify\<close> parses the stored signature. If it does not parse, \<open>verify\<close> returns
  \<open>ErrInvalidSignature\<close> and neither check is made. If it parses, \<open>verify\<close> checks it
  against the SHA-256 hash of \<open>b\<close> first and against the SHA-1 hash only if that check
  fails, and succeeds when either holds, so a signature valid only under SHA-1 verifies.
  It returns \<open>ErrInvalidSignature\<close> exactly when the signature does not parse or both
  checks fail.
\<close>

theorem verify_hash_fallback:
  assumes "msg broadcast = Some m"
    and "data broadcast = Some d"
    and "ToBtcec env (SigningKey d) = Inr signKey"
    and "ToBtcec env (EncryptionKey d) = Inr encKey"
    and "NewPublic env signKey encKey (Behavior d) (Pow d) (Version address) (Stream address)
           = Inr ident"
    and "Address_String env address = Address_String env (Address_of env ident)"
    and "encodeForSigning env broadcast [] = (None, b)"
  shows "(\<forall>e. ParseSignature env (signature broadcast) = Inl e \<longrightarrow>
            verify env broadcast address
              = ([EvSum256 b, EvSha1 b, EvParseSignature (signature broadcast)],
                 Some ErrInvalidSignature))
       \<and> (\<forall>sig. ParseSignature env (signature broadcast) = Inr sig \<longrightarrow>
            fst (verify env broadcast address)
              = [EvSum256 b, EvSha1 b, EvParseSignature (signature broadcast)]
                @ (if Verify env sig (Sum256 env b) signKey then [EvVerify (Sum256 env b)]
                   else [EvVerify (Sum256 env b), EvVerify (sha1_Sum env b)])
            \<and> (snd (verify env broadcast address) = Some ErrInvalidSignature
                 \<longleftrightarrow> \<not> Verify env sig (Sum256 env b) signKey
                     \<and> \<not> Verify env sig (sha1_Sum env b) signKey)
            \<and> (snd (verify env broadcast address) = None
                 \<longleftrightarrow> Verify env sig (Sum256 env b) signKey
                     \<or> Verify env sig (sha1_Sum env b) signKey))
       \<and> (snd (verify env broadcast address) = Some ErrInvalidSignature
            \<longleftrightarrow> (case ParseSignature env (signature broadcast) of
                   Inl e \<Rightarrow> True
                 | Inr sig \<Rightarrow> \<not> Verify env sig (Sum256 env b) signKey
                              \<and> \<not> Verify env sig (sha1_Sum env b) signKey))"
proof -
  have v: "verify env broadcast address
             = (case verify_signature env (signature broadcast) (Sum256 env b) (sha1_Sum env b)
                       signKey of
                  (t, r) \<Rightarrow> ([EvSum256 b, EvSha1 b] @ t, r))"
    using assms by (simp add: verify_def Let_def)
  show ?thesis
  proof (cases "ParseSignature env (signature broadcast)")
    case (Inl e)
    then show ?thesis by (simp add: v verify_signature_def)
  next
    case (Inr sig)
    then show ?thesis by (simp add: v verify_signature_def)
  qed
qed

theorem verify_hash_fallback_witness:
  "verify sample_env sample_legacy_broadcast sample_address
     = ([EvSum256 [3, 4, 1, 7, 8, 1, 2, 3, 2, 10, 11], EvSha1 [3, 4, 1, 7, 8, 1, 2, 3, 2, 10, 11],
         EvParseSignature [7, 11, 1], EvVerify [11, 0], EvVerify [11, 1]], None)
   \<and> \<not> Verify sample_env (Signature [7, 11, 1]) (Sum256 sample_env [3, 4, 1, 7, 8, 1, 2, 3, 2, 10, 11])
          (PublicKey [7])
   \<and> Verify sample_env (Signature [7, 11, 1]) (sha1_Sum sample_env [3, 4, 1, 7, 8, 1, 2, 3, 2, 10, 11])
          (PublicKey [7])
   \<and> verify sample_env sample_unparsable_broadcast sample_address
     = ([EvSum256 [3, 4, 1, 7, 8, 1, 2, 3, 2, 10, 11], EvSha1 [3, 4, 1, 7, 8, 1, 2, 3, 2, 10, 11],
         EvParseSignature []], Some ErrInvalidSignature)"
proof -
  let ?b = "[3, 4, 1, 7, 8, 1, 2, 3, 2, 10, 11] :: bytes"
  let ?ident = "\<lparr>Public_address = sample_address, Public_Data = Pow sample_data,
                  Public_VerificationKey = PublicKey [7], Public_EncryptionKey = PublicKey [8]\<rparr>"
  have h1: "msg sample_legacy_broadcast = Some sample_object"
    and h2: "data sample_legacy_broadcast = Some sample_data"
    and u1: "msg sample_unparsable_broadcast = Some sample_object"
    and u2: "data sample_unparsable_broadcast = Some sample_data"
    by (simp_all add: sample_legacy_broadcast_def sample_unparsable_broadcast_def)
  have h3: "ToBtcec sample_env (SigningKey sample_data) = Inr (PublicKey [7])"
    and h4: "ToBtcec sample_env (EncryptionKey sample_data) = Inr (PublicKey [8])"
    by (simp_all add: sample_env_def sample_ToBtcec_def sample_data_def)
  have h5: "NewPublic sample_env (PublicKey [7]) (PublicKey [8]) (Behavior sample_data)
              (Pow sample_data) (Version sample_address) (Stream sample_address) = Inr ?ident"
    by (simp add: sample_env_def sample_address_def)
  have h6: "Address_String sample_env sample_address
              = Address_String sample_env (Address_of sample_env ?ident)"
    by (simp add: sample_env_def)
  have h7: "encodeForSigning sample_env sample_legacy_broadcast [] = (None, ?b)"
    and u7: "encodeForSigning sample_env sample_unparsable_broadcast [] = (None, ?b)"
    by (simp_all add: encodeForSigning_def sample_legacy_broadcast_def
          sample_unparsable_broadcast_def sample_object_def
          data_encodeBroadcast_def sample_env_def sample_encodeBroadcast_def sample_data_def)
  have h8: "ParseSignature sample_env (signature sample_legacy_broadcast) = Inr (Signature [7, 11, 1])"
    and u8: "ParseSignature sample_env (signature sample_unparsable_broadcast)
               = Inl (ErrorString ''malformed signature: too short'')"
    by (simp_all add: sample_env_def sample_ParseSignature_def sample_legacy_broadcast_def
          sample_unparsable_broadcast_def)
  have v: "\<not> Verify sample_env (Signature [7, 11, 1]) (Sum256 sample_env ?b) (PublicKey [7])"
      "Verify sample_env (Signature [7, 11, 1]) (sha1_Sum sample_env ?b) (PublicKey [7])"
    by (simp_all add: sample_env_def)
  have s: "signature sample_legacy_broadcast = [7, 11, 1]"
      "signature sample_unparsable_broadcast = []"
      "Sum256 sample_env ?b = [11, 0]" "sha1_Sum sample_env ?b = [11, 1]"
    by (simp_all add: sample_env_def sample_legacy_broadcast_def sample_unparsable_broadcast_def)
  note parsed = verify_hash_fallback [OF h1 h2 h3 h4 h5 h6 h7, THEN conjunct2, THEN conjunct1,
                  rule_format, OF h8]
  note unparsed = verify_hash_fallback [OF u1 u2 h3 h4 h5 h6 u7, THEN conjunct1, rule_format, OF u8]
  from parsed v s
  have "fst (verify sample_env sample_legacy_broadcast sample_address)
          = [EvSum256 ?b, EvSha1 ?b, EvParseSignature [7, 11, 1], EvVerify [11, 0], EvVerify [11, 1]]
        \<and> snd (verify sample_env sample_legacy_broadcast sample_address) = None"
    by simp
  then have a: "verify sample_env sample_legacy_broadcast sample_address
     = ([EvSum256 ?b, EvSha1 ?b, EvParseSignature [7, 11, 1], EvVerify [11, 0], EvVerify [11, 1]],
        None)"
    by (simp add: prod_eq_iff)
  have b: "verify sample_env sample_unparsable_broadcast sample_address
     = ([EvSum256 ?b, EvSha1 ?b, EvParseSignature []], Some ErrInvalidSignature)"
    using unparsed by (simp add: s)
  show ?thesis using a b v by simp
qed

text \<open>
  The claim as first stated has the error returned exactly when both checks fail. For a
  stored signature that does not parse the error is returned and neither check is made.
\<close>

theorem verify_hash_fallback_counterexample:
  "ParseSignature sample_env (signature sample_unparsable_broadcast)
     = Inl (ErrorString ''malformed signature: too short'')
   \<and> verify sample_env sample_unparsable_broadcast sample_address
     = ([EvSum256 [3, 4, 1, 7, 8, 1, 2, 3, 2, 10, 11], EvSha1 [3, 4, 1, 7, 8, 1, 2, 3, 2, 10, 11],
         EvParseSignature []], Some ErrInvalidSignature)
   \<and> EvVerify (Sum256 sample_env [3, 4, 1, 7, 8, 1, 2, 3, 2, 10, 11])
         \<notin> set (fst (verify sample_env sample_unparsable_broadcast sample_address))
   \<and> EvVerify (sha1_Sum sample_env [3, 4, 1, 7, 8, 1, 2, 3, 2, 10, 11])
         \<notin> set (fst (verify sample_env sample_unparsable_broadcast sample_address))"
proof -
  let ?b = "[3, 4, 1, 7, 8, 1, 2, 3, 2, 10, 11] :: bytes"
  have p: "ParseSignature sample_env (signature sample_unparsable_broadcast)
     = Inl (ErrorString ''malformed signature: too short'')"
    by (simp add: sample_env_def sample_ParseSignature_def sample_unparsable_broadcast_def)
  have e: "encodeForSigning sample_env sample_unparsable_broadcast [] = (None, ?b)"
    by (simp add: encodeForSigning_def sample_unparsable_broadcast_def sample_object_def
          data_encodeBroadcast_def sample_env_def sample_encodeBroadcast_def sample_data_def)
  have i: "ToBtcec sample_env (SigningKey sample_data) = Inr (PublicKey [7])"
      "ToBtcec sample_env (EncryptionKey sample_data) = Inr (PublicKey [8])"
      "NewPublic sample_env (PublicKey [7]) (PublicKey [8]) (Behavior sample_data)
         (Pow sample_data) (Version sample_address) (Stream sample_address)
         = Inr \<lparr>Public_address = sample_address, Public_Data = Pow sample_data,
                Public_VerificationKey = PublicKey [7], Public_EncryptionKey = PublicKey [8]\<rparr>"
      "Address_of sample_env = Public_address"
    by (simp_all add: sample_env_def sample_ToBtcec_def sample_data_def sample_address_def)
  have s: "verify_signature sample_env (signature sample_unparsable_broadcast)
             (Sum256 sample_env ?b) (sha1_Sum sample_env ?b) (PublicKey [7])
             = ([EvParseSignature []], Some ErrInvalidSignature)"
    using verify_signature_unparsable [OF p]
    by (simp add: sample_unparsable_broadcast_def)
  have m: "msg sample_unparsable_broadcast = Some sample_object"
      "data sample_unparsable_broadcast = Some sample_data"
    by (simp_all add: sample_unparsable_broadcast_def)
  have v: "verify sample_env sample_unparsable_broadcast sample_address
     = ([EvSum256 ?b, EvSha1 ?b, EvParseSignature []], Some ErrInvalidSignature)"
    by (simp add: verify_def m i e s)
  have h: "Sum256 sample_env ?b = [11, 0]" "sha1_Sum sample_env ?b = [11, 1]"
    by (simp_all add: sample_env_def)
  show ?thesis using p by (simp add: v h)
qed

section \<open>Framing of the signature in the encoding for encryption\<close>

lemma ReadFull_exact: "ReadFull s (replicate (length s) 0) = (None, s, [])"
  by (cases s) (simp_all add: ReadFull_def)

lemma legal_length:
  assumes "length s \<le> unat (mx :: uint64)"
  shows "unat (of_nat (length s) :: uint64) = length s" and "\<not> (of_nat (length s) :: uint64) > mx"
proof -
  have "unat mx < 2 ^ 64" using unsigned_less [of mx, where ?'a = nat] by simp
  then have lt: "length s < 2 ^ 64" using assms by simp
  then show u: "unat (of_nat (length s) :: uint64) = length s"
    by (simp add: unat_of_nat)
  show "\<not> (of_nat (length s) :: uint64) > mx"
    using assms u by (simp add: word_less_nat_alt)
qed

text \<open>
  The framing of the signature. Given a payload codec that round-trips on the message
  data and a varint codec that round-trips on the length of the signature, the bytes that
  \<open>encodeForEncryption\<close> writes into an empty buffer are the payload, the length and the
  signature, and \<open>decodeFromDecrypted\<close> reads the same data and signature back from them,
  provided the signature is no longer than \<^verbatim>\<open>SignatureMaxLength\<close>. The payload codec
  itself is outside the sources, so this says nothing of its own round trip.
\<close>

lemma signature_framing_round_trip:
  assumes "data b = Some d"
    and "payload_round_trips env d p"
    and "varint_round_trips env (of_nat (length (signature b))) v"
    and "length (signature b) \<le> unat (SignatureMaxLength env)"
  shows "encodeForEncryption env b [] = (None, p @ v @ signature b)
       \<and> decodeFromDecrypted env b0 (p @ v @ signature b)
           = (None, b0\<lparr>data := Some d, signature := signature b\<rparr>)"
proof -
  have enc: "encodeForEncryption env b [] = (None, p @ v @ signature b)"
    using assms(1-3)
    by (simp add: encodeForEncryption_def data_encodeBroadcast_def payload_round_trips_def
          varint_round_trips_def Buffer_Write_def)
  have d1: "decodeBroadcast env (p @ v @ signature b) = (None, d, v @ signature b)"
    using assms(2) by (simp add: payload_round_trips_def)
  have d2: "ReadVarInt env (v @ signature b) = Inr (of_nat (length (signature b)), signature b)"
    using assms(3) by (simp add: varint_round_trips_def)
  have dec: "decodeFromDecrypted env b0 (p @ v @ signature b)
           = (None, b0\<lparr>data := Some d, signature := signature b\<rparr>)"
    using legal_length [OF assms(4)]
    by (simp add: decodeFromDecrypted_def d1 d2 ReadFull_exact)
  show ?thesis using enc dec by simp
qed

lemma signature_framing_round_trip_sample:
  "encodeForEncryption sample_env sample_legacy_broadcast []
     = (None, [7, 8, 1, 2, 3, 2, 10, 11, 3, 7, 11, 1])
   \<and> decodeFromDecrypted sample_env Broadcast_zero [7, 8, 1, 2, 3, 2, 10, 11, 3, 7, 11, 1]
     = (None, \<lparr>msg = None, data = Some sample_data, signature = [7, 11, 1]\<rparr>)"
proof -
  have h1: "data sample_legacy_broadcast = Some sample_data"
    and s: "signature sample_legacy_broadcast = [7, 11, 1]"
    by (simp_all add: sample_legacy_broadcast_def)
  have h2: "payload_round_trips sample_env sample_data [7, 8, 1, 2, 3, 2, 10, 11]"
    by (simp add: payload_round_trips_def sample_env_def sample_encodeBroadcast_def
          sample_decodeBroadcast_def sample_data_def)
  have h3: "varint_round_trips sample_env (of_nat (length (signature sample_legacy_broadcast))) [3]"
    by (simp add: s varint_round_trips_def sample_env_def sample_WriteVarInt_def
          sample_ReadVarInt_def)
  have h4: "length (signature sample_legacy_broadcast) \<le> unat (SignatureMaxLength sample_env)"
    by (simp add: s sample_env_def)
  show ?thesis
    using signature_framing_round_trip [OF h1 h2 h3 h4, of Broadcast_zero]
    by (simp add: s Broadcast_zero_def)
qed

section \<open>The check of the embedded keys against the decrypting address\<close>

text \<open>
  Claim C1, amended. When a broadcast decrypts and decodes, its keys convert, the public
  identity is rebuilt from them with the version and stream of the decrypting address, and
  the address string of that identity differs from the string of the decrypting address,
  then \<open>newBroadcast\<close>, \<open>NewTaglessBroadcast\<close> and \<open>NewTaggedBroadcast\<close> fail with the
  formatted error that names both address strings and the possible surreptitious
  forwarding attack. That error is a value of its own, not \<open>ErrInvalidIdentity\<close>.
\<close>

theorem open_forwarding_error:
  assumes "Decrypt env key (Encrypted m) = Inr dec"
    and "decodeFromDecrypted env Broadcast_zero dec = (None, b)"
    and "data b = Some d"
    and "ToBtcec env (SigningKey d) = Inr signKey"
    and "ToBtcec env (EncryptionKey d) = Inr encKey"
    and "NewPublic env signKey encKey (Behavior d) (Pow d) (Version address) (Stream address)
           = Inr ident"
    and "Address_String env address \<noteq> Address_String env (Address_of env ident)"
  shows "newBroadcast env m key address
           = ([EvDecrypt key (Encrypted m)],
              Inl (forwarding_error (Address_String env address)
                     (Address_String env (Address_of env ident))))
       \<and> (\<forall>t. m = Tagless t \<and> key = V4BroadcastDecryptionKey env address \<longrightarrow>
             NewTaglessBroadcast env t address
               = ([EvDeriveKey address, EvDecrypt key (Encrypted m)],
                  Inl (forwarding_error (Address_String env address)
                         (Address_String env (Address_of env ident)))))
       \<and> (\<forall>t. m = Tagged t \<and> key = V5BroadcastDecryptionKey env address
               \<and> Tag t = bmutil_Tag env address \<longrightarrow>
             NewTaggedBroadcast env t address
               = ([EvTag address, EvDeriveKey address, EvDecrypt key (Encrypted m)],
                  Inl (forwarding_error (Address_String env address)
                         (Address_String env (Address_of env ident)))))
       \<and> forwarding_error (Address_String env address)
            (Address_String env (Address_of env ident)) \<noteq> ErrInvalidIdentity"
proof -
  have nb: "newBroadcast env m key address
           = ([EvDecrypt key (Encrypted m)],
              Inl (forwarding_error (Address_String env address)
                     (Address_String env (Address_of env ident))))"
    using assms
    by (simp add: newBroadcast_def Buffer_Write_def verify_def Let_def)
  have ne: "forwarding_error (Address_String env address)
              (Address_String env (Address_of env ident)) \<noteq> ErrInvalidIdentity"
    by (simp add: forwarding_error_def)
  show ?thesis
    using nb ne
    by (auto simp: NewTaglessBroadcast_def NewTaggedBroadcast_def ConstantTimeCompare_iff)
qed

theorem open_forwarding_error_witness:
  "NewTaglessBroadcast sample_env sample_forwarded sample_other_address
     = ([EvDeriveKey sample_other_address,
         EvDecrypt (PrivateKey [4, 7, 9]) [4, 7, 9, 7, 8, 1, 2, 3, 2, 10, 11, 3, 7, 11, 0]],
        Inl (forwarding_error ''BM-4-1-7-9'' ''BM-4-1-7-8''))"
proof -
  let ?c = "[4, 7, 9, 7, 8, 1, 2, 3, 2, 10, 11, 3, 7, 11, 0] :: bytes"
  let ?dec = "[7, 8, 1, 2, 3, 2, 10, 11, 3, 7, 11, 0] :: bytes"
  let ?b = "\<lparr>msg = None, data = Some sample_data, signature = [7, 11, 0]\<rparr>"
  let ?ident = "\<lparr>Public_address = sample_address, Public_Data = Pow sample_data,
                  Public_VerificationKey = PublicKey [7], Public_EncryptionKey = PublicKey [8]\<rparr>"
  have k: "V4BroadcastDecryptionKey sample_env sample_other_address = PrivateKey [4, 7, 9]"
    by (simp add: sample_env_def sample_other_address_def)
  have h1: "Decrypt sample_env (PrivateKey [4, 7, 9]) (Encrypted (Tagless sample_forwarded))
              = Inr ?dec"
    by (simp add: sample_env_def sample_forwarded_def)
  have h2: "decodeFromDecrypted sample_env Broadcast_zero ?dec = (None, ?b)"
    by (simp add: decodeFromDecrypted_def sample_env_def sample_decodeBroadcast_def
          sample_ReadVarInt_def ReadFull_def Broadcast_zero_def sample_data_def)
  have h3: "data ?b = Some sample_data" by simp
  have h4: "ToBtcec sample_env (SigningKey sample_data) = Inr (PublicKey [7])"
    and h5: "ToBtcec sample_env (EncryptionKey sample_data) = Inr (PublicKey [8])"
    by (simp_all add: sample_env_def sample_ToBtcec_def sample_data_def)
  have h6: "NewPublic sample_env (PublicKey [7]) (PublicKey [8]) (Behavior sample_data)
              (Pow sample_data) (Version sample_other_address) (Stream sample_other_address)
              = Inr ?ident"
    by (simp add: sample_env_def sample_address_def sample_other_address_def)
  have s1: "Address_String sample_env sample_other_address = ''BM-4-1-7-9''"
    and s2: "Address_String sample_env (Address_of sample_env ?ident) = ''BM-4-1-7-8''"
    by (simp_all add: sample_env_def sample_Address_String_def sample_address_def
          sample_other_address_def digit_def)
  have h7: "Address_String sample_env sample_other_address
              \<noteq> Address_String sample_env (Address_of sample_env ?ident)"
    by (simp add: s1 s2)
  from open_forwarding_error [OF h1 h2 h3 h4 h5 h6 h7]
  have "\<forall>t. Tagless sample_forwarded = Tagless t
            \<and> PrivateKey [4, 7, 9] = V4BroadcastDecryptionKey sample_env sample_other_address \<longrightarrow>
          NewTaglessBroadcast sample_env t sample_other_address
            = ([EvDeriveKey sample_other_address,
                EvDecrypt (PrivateKey [4, 7, 9]) (Encrypted (Tagless sample_forwarded))],
               Inl (forwarding_error (Address_String sample_env sample_other_address)
                      (Address_String sample_env (Address_of sample_env ?ident))))"
    by blast
  then have "NewTaglessBroadcast sample_env sample_forwarded sample_other_address
            = ([EvDeriveKey sample_other_address,
                EvDecrypt (PrivateKey [4, 7, 9]) (Encrypted (Tagless sample_forwarded))],
               Inl (forwarding_error (Address_String sample_env sample_other_address)
                      (Address_String sample_env (Address_of sample_env ?ident))))"
    using k by simp
  then show ?thesis
    by (simp only: s1 s2) (simp add: sample_forwarded_def)
qed

text \<open>
  The claim as first stated has the failure be the \<open>ErrInvalidIdentity\<close> value. On a
  broadcast of the sample identity sent on to another address it is not.
\<close>

theorem open_forwarding_error_counterexample:
  "Decrypt sample_env (V4BroadcastDecryptionKey sample_env sample_other_address)
       (Encrypted (Tagless sample_forwarded))
     = Inr [7, 8, 1, 2, 3, 2, 10, 11, 3, 7, 11, 0]
   \<and> decodeFromDecrypted sample_env Broadcast_zero [7, 8, 1, 2, 3, 2, 10, 11, 3, 7, 11, 0]
     = (None, \<lparr>msg = None, data = Some sample_data, signature = [7, 11, 0]\<rparr>)
   \<and> Address_String sample_env sample_other_address = ''BM-4-1-7-9''
   \<and> NewPublic sample_env (PublicKey [7]) (PublicKey [8]) (Behavior sample_data)
       (Pow sample_data) (Version sample_other_address) (Stream sample_other_address)
     = Inr \<lparr>Public_address = sample_address, Public_Data = Pow sample_data,
            Public_VerificationKey = PublicKey [7], Public_EncryptionKey = PublicKey [8]\<rparr>
   \<and> Address_String sample_env sample_address = ''BM-4-1-7-8''
   \<and> snd (NewTaglessBroadcast sample_env sample_forwarded sample_other_address)
     = Inl (ErrorString (''Address used for decryption (BM-4-1-7-9) doesn't match ''
              @ ''that generated from public key (BM-4-1-7-8). Possible surreptitious ''
              @ ''forwarding attack.''))
   \<and> snd (NewTaglessBroadcast sample_env sample_forwarded sample_other_address)
     \<noteq> Inl ErrInvalidIdentity"
proof -
  have a: "Decrypt sample_env (V4BroadcastDecryptionKey sample_env sample_other_address)
       (Encrypted (Tagless sample_forwarded))
     = Inr [7, 8, 1, 2, 3, 2, 10, 11, 3, 7, 11, 0]"
    by (simp add: sample_env_def sample_forwarded_def sample_other_address_def)
  have b: "decodeFromDecrypted sample_env Broadcast_zero [7, 8, 1, 2, 3, 2, 10, 11, 3, 7, 11, 0]
     = (None, \<lparr>msg = None, data = Some sample_data, signature = [7, 11, 0]\<rparr>)"
    by (simp add: decodeFromDecrypted_def sample_env_def sample_decodeBroadcast_def
          sample_ReadVarInt_def ReadFull_def Broadcast_zero_def sample_data_def)
  have c: "Address_String sample_env sample_other_address = ''BM-4-1-7-9''"
    by (simp add: sample_env_def sample_Address_String_def sample_other_address_def digit_def)
  have n: "NewPublic sample_env (PublicKey [7]) (PublicKey [8]) (Behavior sample_data)
       (Pow sample_data) (Version sample_other_address) (Stream sample_other_address)
     = Inr \<lparr>Public_address = sample_address, Public_Data = Pow sample_data,
            Public_VerificationKey = PublicKey [7], Public_EncryptionKey = PublicKey [8]\<rparr>"
    by (simp add: sample_env_def sample_address_def sample_other_address_def)
  have d: "Address_String sample_env sample_address = ''BM-4-1-7-8''"
    by (simp add: sample_env_def sample_Address_String_def sample_address_def digit_def)
  have t: "ToBtcec sample_env (SigningKey sample_data) = Inr (PublicKey [7])"
      "ToBtcec sample_env (EncryptionKey sample_data) = Inr (PublicKey [8])"
      "Address_of sample_env = Public_address"
    by (simp_all add: sample_env_def sample_ToBtcec_def sample_data_def)
  have v: "verify sample_env \<lparr>msg = Some (Tagless sample_forwarded), data = Some sample_data,
                signature = [7, 11, 0]\<rparr> sample_other_address
             = ([], Some (forwarding_error ''BM-4-1-7-9'' ''BM-4-1-7-8''))"
    using c d n t by (simp add: verify_def)
  have e: "snd (NewTaglessBroadcast sample_env sample_forwarded sample_other_address)
             = Inl (forwarding_error ''BM-4-1-7-9'' ''BM-4-1-7-8'')"
    using a b v
    by (simp add: NewTaglessBroadcast_def newBroadcast_def Buffer_Write_def)
  show ?thesis
    using a b c n d e by (simp add: forwarding_error_def)
qed

section \<open>Failures of the create pipeline\<close>

text \<open>
  Claim C8, amended. A failure at any step of \<open>signAndEncrypt\<close> ends the pipeline. An
  error of the encoding for signing or of the encoding for encryption is returned as it
  is; a signing error comes back as a new error whose text is \<^verbatim>\<open>signing failed: \<close>
  followed by the text of the signing error, and an encryption error as
  \<^verbatim>\<open>encryption failed: \<close> followed by its text. Whenever \<open>signAndEncrypt\<close> fails, the
  creation entry points return an error and no broadcast.
\<close>

theorem signAndEncrypt_failure:
  "(broadcastEncodeForSigning env [] i (data b) = (Some e, w) \<longrightarrow>
      fst (snd (signAndEncrypt env b i address private)) = Some e)
   \<and> (broadcastEncodeForSigning env [] i (data b) = (None, w)
        \<and> Sign env (Private_SigningKey private) (Sum256 env w) = Inl e \<longrightarrow>
      fst (snd (signAndEncrypt env b i address private))
        = Some (ErrorString (''signing failed: '' @ Error_text env e)))
   \<and> (broadcastEncodeForSigning env [] i (data b) = (None, w)
        \<and> Sign env (Private_SigningKey private) (Sum256 env w) = Inr sig
        \<and> encodeForEncryption env (b\<lparr>signature := Serialize env sig\<rparr>) [] = (Some e, w1) \<longrightarrow>
      fst (snd (signAndEncrypt env b i address private)) = Some e)
   \<and> (broadcastEncodeForSigning env [] i (data b) = (None, w)
        \<and> Sign env (Private_SigningKey private) (Sum256 env w) = Inr sig
        \<and> encodeForEncryption env (b\<lparr>signature := Serialize env sig\<rparr>) [] = (None, w1)
        \<and> snd (incomplete_Encrypt env i address w1) = Inl e \<longrightarrow>
      fst (snd (signAndEncrypt env b i address private))
        = Some (ErrorString (''encryption failed: '' @ Error_text env e)))
   \<and> (fst (snd (signAndEncrypt env \<lparr>msg = None, data = Some d, signature = []\<rparr>
                   (incompleteTaglessBroadcast expiration (Stream (Private_Address private)))
                   (Private_Address private) private)) = Some e \<longrightarrow>
      snd (CreateTaglessBroadcast env expiration d private)
        = Inl (if Destination d \<noteq> None
               then ErrorString ''Broadcasts do not have a destination.'' else e))
   \<and> (fst (snd (signAndEncrypt env \<lparr>msg = None, data = Some d, signature = []\<rparr>
                   (incompleteTaggedBroadcast expiration (Stream (Private_Address private)) tag)
                   (Private_Address private) private)) = Some e \<longrightarrow>
      snd (CreateTaggedBroadcast env expiration d tag private)
        = Inl (if Destination d \<noteq> None
               then ErrorString ''Broadcasts do not have a destination.'' else e))"
  by (auto simp: signAndEncrypt_def CreateTaglessBroadcast_def CreateTaggedBroadcast_def Let_def
           split: prod.splits sum.splits option.splits)

lemma sample_signable:
  "broadcastEncodeForSigning sample_env [] sample_incomplete (data sample_fresh)
     = (None, [3, 4, 1, 7, 8, 1, 2, 3, 2, 10, 11])"
  "broadcastEncodeForSigning sample_env_sign_fails [] sample_incomplete (data sample_fresh)
     = (None, [3, 4, 1, 7, 8, 1, 2, 3, 2, 10, 11])"
  "broadcastEncodeForSigning sample_env_encrypt_fails [] sample_incomplete (data sample_fresh)
     = (None, [3, 4, 1, 7, 8, 1, 2, 3, 2, 10, 11])"
  "broadcastEncodeForSigning sample_env_encode_fails [] sample_incomplete (data sample_fresh)
     = (Some (ErrorString ''unsupported encoding''), [3, 4, 1])"
  by (simp_all add: broadcastEncodeForSigning_def sample_incomplete_def sample_fresh_def
        sample_env_def sample_env_sign_fails_def sample_env_encrypt_fails_def
        sample_env_encode_fails_def data_encodeBroadcast_def sample_encodeBroadcast_def
        sample_data_def sample_private_def sample_address_def Private_Address_def)

lemma sample_sign_fails:
  "Sign sample_env_sign_fails (Private_SigningKey sample_private)
     (Sum256 sample_env_sign_fails [3, 4, 1, 7, 8, 1, 2, 3, 2, 10, 11])
     = Inl (ErrorString ''no entropy'')"
  by (simp add: sample_env_sign_fails_def)

theorem signAndEncrypt_failure_witness:
  "fst (snd (signAndEncrypt sample_env_encode_fails sample_fresh sample_incomplete
               (Private_Address sample_private) sample_private))
     = Some (ErrorString ''unsupported encoding'')
   \<and> fst (snd (signAndEncrypt sample_env_sign_fails sample_fresh sample_incomplete
               (Private_Address sample_private) sample_private))
     = Some (ErrorString ''signing failed: no entropy'')
   \<and> fst (snd (signAndEncrypt sample_env_encrypt_fails sample_fresh sample_incomplete
               (Private_Address sample_private) sample_private))
     = Some (ErrorString ''encryption failed: point not on curve'')
   \<and> snd (CreateTaglessBroadcast sample_env_sign_fails 0 sample_data sample_private)
     = Inl (ErrorString ''signing failed: no entropy'')"
proof -
  let ?w = "[3, 4, 1, 7, 8, 1, 2, 3, 2, 10, 11] :: bytes"
  let ?w1 = "[7, 8, 1, 2, 3, 2, 10, 11, 3, 7, 11, 0] :: bytes"
  let ?a = "Private_Address sample_private"
  note t = signAndEncrypt_failure
  have c1: "fst (snd (signAndEncrypt sample_env_encode_fails sample_fresh sample_incomplete
               ?a sample_private)) = Some (ErrorString ''unsupported encoding'')"
    using t [of sample_env_encode_fails sample_incomplete sample_fresh
               "ErrorString ''unsupported encoding''" "[3, 4, 1]" ?a sample_private]
      sample_signable(4)
    by blast
  have c2: "fst (snd (signAndEncrypt sample_env_sign_fails sample_fresh sample_incomplete
               ?a sample_private))
              = Some (ErrorString (''signing failed: ''
                   @ Error_text sample_env_sign_fails (ErrorString ''no entropy'')))"
    using t [of sample_env_sign_fails sample_incomplete sample_fresh
               "ErrorString ''no entropy''" ?w ?a sample_private]
      sample_signable(2) sample_sign_fails
    by blast
  have s3: "Sign sample_env_encrypt_fails (Private_SigningKey sample_private)
              (Sum256 sample_env_encrypt_fails ?w) = Inr (Signature [7, 11, 0])"
    by (simp add: sample_env_encrypt_fails_def sample_env_def sample_private_def)
  have e3: "encodeForEncryption sample_env_encrypt_fails
              (sample_fresh\<lparr>signature := Serialize sample_env_encrypt_fails (Signature [7, 11, 0])\<rparr>) []
              = (None, ?w1)"
    by (simp add: encodeForEncryption_def sample_env_encrypt_fails_def sample_env_def
          sample_fresh_def data_encodeBroadcast_def sample_encodeBroadcast_def sample_data_def
          sample_WriteVarInt_def Buffer_Write_def)
  have x3: "snd (incomplete_Encrypt sample_env_encrypt_fails sample_incomplete ?a ?w1)
              = Inl (ErrorString ''point not on curve'')"
    by (simp add: sample_incomplete_def sample_env_encrypt_fails_def Let_def)
  have c3: "fst (snd (signAndEncrypt sample_env_encrypt_fails sample_fresh sample_incomplete
               ?a sample_private))
              = Some (ErrorString (''encryption failed: ''
                   @ Error_text sample_env_encrypt_fails (ErrorString ''point not on curve'')))"
    using t [of sample_env_encrypt_fails sample_incomplete sample_fresh
               "ErrorString ''point not on curve''" ?w ?a sample_private
               "Signature [7, 11, 0]" ?w1]
      sample_signable(3) s3 e3 x3
    by blast
  have c4: "snd (CreateTaglessBroadcast sample_env_sign_fails 0 sample_data sample_private)
              = Inl (if Destination sample_data \<noteq> None
                     then ErrorString ''Broadcasts do not have a destination.''
                     else ErrorString (''signing failed: ''
                            @ Error_text sample_env_sign_fails (ErrorString ''no entropy'')))"
    using t [of sample_env_sign_fails sample_incomplete sample_fresh
               "ErrorString (''signing failed: ''
                  @ Error_text sample_env_sign_fails (ErrorString ''no entropy''))"
               ?w ?a sample_private _ _ sample_data 0] c2
    unfolding sample_fresh_def sample_incomplete_def
    by blast
  have texts: "Error_text sample_env_sign_fails (ErrorString ''no entropy'') = ''no entropy''"
    "Error_text sample_env_encrypt_fails (ErrorString ''point not on curve'') = ''point not on curve''"
    "Destination sample_data = None"
    by (simp_all add: sample_env_sign_fails_def sample_env_encrypt_fails_def sample_env_def
          sample_data_def)
  show ?thesis
    using c1 c2 c3 c4 by (simp add: texts)
qed

text \<open>
  The claim as first stated has every error returned unchanged. A signing error is not.
\<close>

theorem signAndEncrypt_failure_counterexample:
  "Sign sample_env_sign_fails (Private_SigningKey sample_private)
     (Sum256 sample_env_sign_fails [3, 4, 1, 7, 8, 1, 2, 3, 2, 10, 11])
     = Inl (ErrorString ''no entropy'')
   \<and> fst (snd (signAndEncrypt sample_env_sign_fails sample_fresh sample_incomplete
               (Private_Address sample_private) sample_private))
     = Some (ErrorString ''signing failed: no entropy'')
   \<and> fst (snd (signAndEncrypt sample_env_sign_fails sample_fresh sample_incomplete
               (Private_Address sample_private) sample_private))
     \<noteq> Some (ErrorString ''no entropy'')"
proof -
  have "fst (snd (signAndEncrypt sample_env_sign_fails sample_fresh sample_incomplete
               (Private_Address sample_private) sample_private))
     = Some (ErrorString (''signing failed: ''
               @ Error_text sample_env_sign_fails (ErrorString ''no entropy'')))"
    by (simp add: signAndEncrypt_def sample_signable(2) sample_sign_fails)
  moreover have "Error_text sample_env_sign_fails (ErrorString ''no entropy'') = ''no entropy''"
    by (simp add: sample_env_sign_fails_def sample_env_def)
  ultimately show ?thesis using sample_sign_fails by simp
qed

end
